theory Spec2Isabelle
  imports Main
begin

section \<open>The Spanner PostgreSQL migrator of go-gorm-spanner\<close>

text \<open>
  A shallow embedding of \<^verbatim>\<open>postgresql/migrator.go\<close> and of the dialect callbacks of
  \<^verbatim>\<open>postgresql/spanner.go\<close>. Go errors are values of type \<open>error\<close>; a function that
  uses the connection takes its state and returns the new one. The SQL of the source is
  kept as text; a catalog query is the function on the catalog rows that its \<^verbatim>\<open>WHERE\<close>
  and \<^verbatim>\<open>JOIN\<close> clauses denote.
\<close>

subsection \<open>Errors, the catalog and the connection\<close>

datatype error = Error string | Panic string

text \<open>Rows of the \<^verbatim>\<open>information_schema\<close> views that the migrator reads.\<close>

record table_row =
  t_schema :: string
  t_name :: string
  t_type :: string

text \<open>
  A row of \<^verbatim>\<open>information_schema.columns\<close>, with the two values that the first query
  of \<^verbatim>\<open>ColumnTypes\<close> joins to it: \<^verbatim>\<open>pg_type.typlen\<close> of its \<^verbatim>\<open>udt_name\<close> and its
  \<^verbatim>\<open>pg_description.description\<close>. \<open>c_driver_type\<close> is the type name that the
  driver reports for the column in the result set of \<^verbatim>\<open>GetRows\<close>.
\<close>

record column_row =
  c_schema :: string
  c_table :: string
  c_name :: string
  c_is_nullable :: string
  c_udt_name :: "string option"
  c_character_maximum_length :: "int option"
  c_numeric_precision :: "int option"
  c_numeric_scale :: "int option"
  c_datetime_precision :: "int option"
  c_typlen :: "int option"
  c_column_default :: "string option"
  c_description :: "string option"
  c_identity_increment :: "string option"
  c_spanner_type :: string
  c_driver_type :: string
  c_generation_expression :: "string option"

record tc_row =
  tc_catalog :: string
  tc_schema :: string
  tc_table :: string
  tc_name :: string
  tc_type :: string

record ccu_row =
  ccu_catalog :: string
  ccu_schema :: string
  ccu_table :: string
  ccu_column :: string
  ccu_name :: string

record ctu_row =
  ctu_catalog :: string
  ctu_schema :: string
  ctu_table_schema :: string
  ctu_table :: string
  ctu_name :: string

record index_row =
  i_schema :: string
  i_table :: string
  i_name :: string
  i_type :: string
  i_spanner_is_managed :: string

record option_row =
  o_schema :: string
  o_name :: string

record database =
  tables :: "table_row list"
  columns :: "column_row list"
  table_constraints :: "tc_row list"
  constraint_column_usage :: "ccu_row list"
  constraint_table_usage :: "ctu_row list"
  indexes :: "index_row list"
  database_options :: "option_row list"

text \<open>
  What travels over the connection: the three client-side batch statements of
  \<^verbatim>\<open>StartBatchDDL\<close>, \<^verbatim>\<open>RunBatch\<close> and \<^verbatim>\<open>AbortBatch\<close>, a schema statement, or a query.
\<close>

datatype command = StartBatch | Run | Abort | DDL string | Select string

text \<open>
  The connection the migrator is bound to. \<open>batch\<close> is the open DDL batch with the
  statements buffered in it; \<open>log\<close> is every command issued so far, in order; \<open>faults\<close>
  says which command (by its position in the log) the transport rejects, so that every
  error return of the source can be reached; \<open>sql_conn\<close> and \<open>spanner_conn\<close> are the two
  type assertions of the dry-run path.
\<close>

record conn =
  db :: database
  batch :: "string list option"
  log :: "command list"
  faults :: "nat \<Rightarrow> error option"
  sql_conn :: bool
  spanner_conn :: bool

text \<open>
  The database's DDL service is not part of the repository: it is a parameter that takes
  the statements of one request and the catalog, and returns the verdict and the catalog
  afterwards.
\<close>

type_synonym ddl_service = "string list \<Rightarrow> database \<Rightarrow> error option \<times> database"

definition issue :: "command \<Rightarrow> conn \<Rightarrow> error option \<times> conn" where
  "issue cmd c = (faults c (length (log c)), c\<lparr>log := log c @ [cmd]\<rparr>)"

definition StartBatchDDL :: "conn \<Rightarrow> error option \<times> conn" where
  "StartBatchDDL c =
     (case issue StartBatch c of
        (Some e, c1) \<Rightarrow> (Some e, c1)
      | (None, c1) \<Rightarrow>
          (case batch c1 of
             Some b \<Rightarrow> (Some (Error ''this connection already has an active batch''), c1)
           | None \<Rightarrow> (None, c1\<lparr>batch := Some []\<rparr>)))"

definition RunBatch :: "ddl_service \<Rightarrow> conn \<Rightarrow> error option \<times> conn" where
  "RunBatch srv c =
     (case issue Run c of
        (Some e, c1) \<Rightarrow> (Some e, c1)
      | (None, c1) \<Rightarrow>
          (case batch c1 of
             None \<Rightarrow> (Some (Error ''this connection does not have an active batch''), c1)
           | Some b \<Rightarrow>
               (case srv b (db c1) of
                  (r, d) \<Rightarrow> (r, c1\<lparr>batch := None, db := d\<rparr>))))"

definition AbortBatch :: "conn \<Rightarrow> error option \<times> conn" where
  "AbortBatch c =
     (case issue Abort c of
        (Some e, c1) \<Rightarrow> (Some e, c1)
      | (None, c1) \<Rightarrow> (None, c1\<lparr>batch := None\<rparr>))"

text \<open>
  \<^verbatim>\<open>DB.Exec\<close> of a schema statement: buffered while a batch is open, sent to the
  DDL service as a request of its own otherwise.
\<close>

definition ExecDDL :: "ddl_service \<Rightarrow> string \<Rightarrow> conn \<Rightarrow> error option \<times> conn" where
  "ExecDDL srv sql c =
     (case issue (DDL sql) c of
        (Some e, c1) \<Rightarrow> (Some e, c1)
      | (None, c1) \<Rightarrow>
          (case batch c1 of
             Some b \<Rightarrow> (None, c1\<lparr>batch := Some (b @ [sql])\<rparr>)
           | None \<Rightarrow>
               (case srv [sql] (db c1) of
                  (r, d) \<Rightarrow> (r, c1\<lparr>db := d\<rparr>))))"

text \<open>\<^verbatim>\<open>queryRaw(sql).Scan\<close>: the rows \<open>f\<close> selects from the catalog, or the error.\<close>

definition queryRaw :: "string \<Rightarrow> (database \<Rightarrow> 'a) \<Rightarrow> conn \<Rightarrow> (error + 'a) \<times> conn" where
  "queryRaw sql f c =
     (case issue (Select sql) c of
        (Some e, c1) \<Rightarrow> (Inl e, c1)
      | (None, c1) \<Rightarrow> (Inr (f (db c1)), c1))"

definition GetBatchedStatements :: "conn \<Rightarrow> string list" where
  "GetBatchedStatements c = (case batch c of None \<Rightarrow> [] | Some b \<Rightarrow> b)"

subsection \<open>Strings\<close>

text \<open>
  \<^verbatim>\<open>strings.HasPrefix\<close>, \<^verbatim>\<open>strings.HasSuffix\<close> and \<^verbatim>\<open>strings.EqualFold\<close>. Strings
  are bytes, and case is folded for the letters of ASCII only.
\<close>

definition HasPrefix :: "string \<Rightarrow> string \<Rightarrow> bool" where
  "HasPrefix s p = (take (length p) s = p)"

definition HasSuffix :: "string \<Rightarrow> string \<Rightarrow> bool" where
  "HasSuffix s x = (length x \<le> length s \<and> drop (length s - length x) s = x)"

definition to_lower :: "char \<Rightarrow> char" where
  "to_lower ch =
     (let n = of_char ch :: nat in if 65 \<le> n \<and> n \<le> 90 then char_of (n + 32) else ch)"

definition EqualFold :: "string \<Rightarrow> string \<Rightarrow> bool" where
  "EqualFold a b = (map to_lower a = map to_lower b)"

definition apostrophe :: char where
  "apostrophe = CHR 0x27"

definition double_quote :: char where
  "double_quote = CHR 0x22"

definition line_feed :: char where
  "line_feed = CHR 0x0A"

text \<open>
  The pattern \<^verbatim>\<open>^nextval\('"?[^']+seq"?'::regclass\)$\<close> of \<^verbatim>\<open>ColumnTypes\<close>: between
  \<^verbatim>\<open>nextval('\<close> and \<^verbatim>\<open>'::regclass)\<close> stands a text without an apostrophe that ends in
  \<^verbatim>\<open>seq\<close>, or in \<^verbatim>\<open>seq"\<close>, after at least one other character.
\<close>

definition ends_in_seq :: "string \<Rightarrow> bool" where
  "ends_in_seq x = (4 \<le> length x \<and> HasSuffix x ''seq'')"

definition autoIncrementValuePattern :: "string \<Rightarrow> bool" where
  "autoIncrementValuePattern s =
     (let pre = ''nextval('' @ [apostrophe]; suf = [apostrophe] @ ''::regclass)'' in
      length pre + length suf \<le> length s \<and> HasPrefix s pre \<and> HasSuffix s suf \<and>
      (let m = take (length s - length pre - length suf) (drop (length pre) s) in
       apostrophe \<notin> set m \<and>
       (ends_in_seq m \<or> (m \<noteq> [] \<and> last m = double_quote \<and> ends_in_seq (butlast m)))))"

text \<open>
  \<^verbatim>\<open>parseDefaultValueValue\<close> (lines 686 to 689): the pattern \<^verbatim>\<open>^(.*?)(?:::.*)?$\<close>
  keeps what stands before the first \<^verbatim>\<open>::\<close>; it matches no text with a line feed,
  which is then left as it is. \<^verbatim>\<open>strings.Trim\<close> takes the apostrophes off both ends.
\<close>

fun before_cast :: "string \<Rightarrow> string" where
  "before_cast [] = []"
| "before_cast [x] = [x]"
| "before_cast (x # y # r) =
     (if x = CHR '':'' \<and> y = CHR '':'' then [] else x # before_cast (y # r))"

definition Trim :: "string \<Rightarrow> char \<Rightarrow> string" where
  "Trim s ch = rev (dropWhile (\<lambda>x. x = ch) (rev (dropWhile (\<lambda>x. x = ch) s)))"

definition parseDefaultValueValue :: "string \<Rightarrow> string" where
  "parseDefaultValueValue defaultValue =
     Trim (if line_feed \<in> set defaultValue then defaultValue else before_cast defaultValue)
          apostrophe"

subsection \<open>The base migrator as a client of the connection\<close>

text \<open>
  \<^verbatim>\<open>m.Migrator.AutoMigrate\<close> is gorm's: it is a parameter. Whatever it does, it
  does through the connection, by schema statements and queries, and each next step may
  depend on what came back.
\<close>

datatype prog =
  Ret "error option"
| ExecP string "error option \<Rightarrow> prog"
| QueryP string "error + database \<Rightarrow> prog"

primrec run_prog :: "ddl_service \<Rightarrow> prog \<Rightarrow> conn \<Rightarrow> error option \<times> conn" where
  "run_prog srv (Ret r) c = (r, c)"
| "run_prog srv (ExecP sql k) c =
     (case ExecDDL srv sql c of (r, c1) \<Rightarrow> run_prog srv (k r) c1)"
| "run_prog srv (QueryP sql k) c =
     (case queryRaw sql (\<lambda>d. d) c of (r, c1) \<Rightarrow> run_prog srv (k r) c1)"

subsection \<open>autoMigrate\<close>

definition default_sequence_kind_sql :: string where
  "default_sequence_kind_sql =
     ''select count(1) from information_schema.database_options where schema_name='public' and option_name='default_sequence_kind'' @ [apostrophe]"

definition count_default_sequence_kind :: "database \<Rightarrow> int" where
  "count_default_sequence_kind d =
     int (length (filter (\<lambda>r. o_schema r = ''public'' \<and> o_name r = ''default_sequence_kind'')
                         (database_options d)))"

definition set_default_sequence_kind_sql :: string where
  "set_default_sequence_kind_sql =
     ''alter database \"db\" set spanner.default_sequence_kind = 'bit_reversed_positive'' @ [apostrophe]"

text \<open>
  The part of \<^verbatim>\<open>autoMigrate\<close> after the batch has been opened (lines 116 to 150): the
  result is Go's pair of the statements and the error.
\<close>

definition autoMigrate_body ::
  "ddl_service \<Rightarrow> bool \<Rightarrow> bool \<Rightarrow> prog \<Rightarrow> int \<Rightarrow> conn \<Rightarrow> (string list \<times> error option) \<times> conn" where
  "autoMigrate_body srv dryRun disableAutoBatching base cnt c =
     (case (if cnt = 0 then ExecDDL srv set_default_sequence_kind_sql c else (None, c)) of
        (Some e, c1) \<Rightarrow> (([], Some e), c1)
      | (None, c1) \<Rightarrow>
          (case run_prog srv base c1 of
             (Some e, c2) \<Rightarrow> (([], Some e), c2)
           | (None, c2) \<Rightarrow>
               if \<not> dryRun \<and> disableAutoBatching then (([], None), c2)
               else if dryRun then
                 (if \<not> sql_conn c2 then (([], Some (Error ''unexpected ConnPool type'')), c2)
                  else if \<not> spanner_conn c2
                    then (([], Some (Error ''dry-run is only supported for Spanner'')), c2)
                  else (case AbortBatch c2 of
                          (r, c3) \<Rightarrow> ((GetBatchedStatements c2, r), c3)))
               else (case RunBatch srv c2 of (r, c3) \<Rightarrow> (([], r), c3))))"

text \<open>
  \<^verbatim>\<open>autoMigrate\<close>: the count query, then the batch is opened unless batching is
  disabled and this is not a dry run; the deferred \<^verbatim>\<open>AbortBatch\<close> runs after the body,
  whatever it returned, and its own result is dropped.
\<close>

definition autoMigrate ::
  "ddl_service \<Rightarrow> bool \<Rightarrow> bool \<Rightarrow> prog \<Rightarrow> conn \<Rightarrow> (string list \<times> error option) \<times> conn" where
  "autoMigrate srv dryRun disableAutoBatching base c =
     (case queryRaw default_sequence_kind_sql count_default_sequence_kind c of
        (Inl e, c1) \<Rightarrow> (([], Some e), c1)
      | (Inr cnt, c1) \<Rightarrow>
          if dryRun \<or> \<not> disableAutoBatching then
            (case StartBatchDDL c1 of
               (Some e, c2) \<Rightarrow> (([], Some e), c2)
             | (None, c2) \<Rightarrow>
                 (case autoMigrate_body srv dryRun disableAutoBatching base cnt c2 of
                    (res, c3) \<Rightarrow> (res, snd (AbortBatch c3))))
          else autoMigrate_body srv dryRun disableAutoBatching base cnt c1)"

definition AutoMigrateDryRun ::
  "ddl_service \<Rightarrow> bool \<Rightarrow> prog \<Rightarrow> conn \<Rightarrow> (string list \<times> error option) \<times> conn" where
  "AutoMigrateDryRun srv disableAutoBatching base c = autoMigrate srv True disableAutoBatching base c"

definition AutoMigrate :: "ddl_service \<Rightarrow> bool \<Rightarrow> prog \<Rightarrow> conn \<Rightarrow> error option \<times> conn" where
  "AutoMigrate srv disableAutoBatching base c =
     (case autoMigrate srv False disableAutoBatching base c of ((stmts, err), c1) \<Rightarrow> (err, c1))"

subsection \<open>What the migrator reads of gorm's schema and statement\<close>

text \<open>
  The members of \<^verbatim>\<open>schema.Field\<close>, \<^verbatim>\<open>schema.Schema\<close> and \<^verbatim>\<open>gorm.Statement\<close> that the
  source reads. \<open>DataType\<close> is a string in gorm (\<^verbatim>\<open>"int"\<close>, \<^verbatim>\<open>"time"\<close>, or a type
  written in a tag); a nil \<open>DefaultValueInterface\<close> is \<open>None\<close>, and so is a nil
  \<open>PrimaryFieldDBNames\<close>. \<open>Unique\<close> is set by the tag \<^verbatim>\<open>unique\<close>, not by \<^verbatim>\<open>uniqueIndex\<close>.
\<close>

record gorm_field =
  Name :: string
  DBName :: string
  DataType :: string
  PrimaryKey :: bool
  AutoIncrement :: bool
  NotNull :: bool
  HasDefaultValue :: bool
  DefaultValue :: string
  DefaultValueInterface :: "string option"
  IgnoreMigration :: bool
  Unique :: bool

record gorm_schema =
  Table :: string
  Fields :: "gorm_field list"
  PrimaryFieldDBNames :: "string list option"

record statement =
  Stmt_Table :: string
  Schema :: "gorm_schema option"
  Omits :: "string list"

text \<open>
  The \<^verbatim>\<open>value interface{}\<close> of the migrator's methods: a table name, a model that gorm
  parses into a schema, or something it cannot parse.
\<close>

datatype model_value = TableName string | Model gorm_schema | Unparsable error

definition parse_value :: "model_value \<Rightarrow> error + statement" where
  "parse_value v =
     (case v of
        TableName t \<Rightarrow> Inr \<lparr>Stmt_Table = t, Schema = None, Omits = []\<rparr>
      | Model s \<Rightarrow> Inr \<lparr>Stmt_Table = Table s, Schema = Some s, Omits = []\<rparr>
      | Unparsable e \<Rightarrow> Inl e)"

text \<open>
  gorm's \<^verbatim>\<open>RunWithValue\<close>: the callback runs on the parsed statement; what the Go
  closure assigns to a captured variable is the callback's value here.
\<close>

definition RunWithValue ::
  "model_value \<Rightarrow> (statement \<Rightarrow> conn \<Rightarrow> (error + 'a) \<times> conn) \<Rightarrow> conn \<Rightarrow> (error + 'a) \<times> conn" where
  "RunWithValue v fc c = (case parse_value v of Inl e \<Rightarrow> (Inl e, c) | Inr stmt \<Rightarrow> fc stmt c)"

text \<open>gorm's \<^verbatim>\<open>LookUpField\<close>: by column name first, by field name second.\<close>

definition LookUpField :: "gorm_schema \<Rightarrow> string \<Rightarrow> gorm_field option" where
  "LookUpField sch n =
     (case find (\<lambda>f. DBName f = n) (Fields sch) of
        Some f \<Rightarrow> Some f
      | None \<Rightarrow> find (\<lambda>f. Name f = n) (Fields sch))"

text \<open>
  \<^verbatim>\<open>CurrentSchema\<close> (lines 61 to 69). The PostgreSQL migrator underneath is a
  parameter: it answers with a schema name, or with the expression
  \<^verbatim>\<open>CURRENT_SCHEMA()\<close> (here \<open>None\<close>), which this migrator replaces by \<^verbatim>\<open>public\<close>.
\<close>

type_synonym schema_of = "statement \<Rightarrow> string \<Rightarrow> string option \<times> string"

definition CurrentSchema :: "schema_of \<Rightarrow> statement \<Rightarrow> string \<Rightarrow> string \<times> string" where
  "CurrentSchema pg stmt table =
     (case pg stmt table of (None, t) \<Rightarrow> (''public'', t) | (Some s, t) \<Rightarrow> (s, t))"

subsection \<open>HasTable and GetTables\<close>

definition has_table_sql :: string where
  "has_table_sql =
     ''SELECT count(*) FROM information_schema.tables WHERE table_schema = ? AND table_name = ? AND table_type = ?''"

definition count_tables :: "string \<Rightarrow> string \<Rightarrow> string \<Rightarrow> database \<Rightarrow> int" where
  "count_tables sch tbl typ d =
     int (length (filter (\<lambda>r. t_schema r = sch \<and> t_name r = tbl \<and> t_type r = typ) (tables d)))"

definition HasTable :: "schema_of \<Rightarrow> model_value \<Rightarrow> conn \<Rightarrow> bool \<times> conn" where
  "HasTable pg v c =
     (case RunWithValue v
             (\<lambda>stmt. case CurrentSchema pg stmt (Stmt_Table stmt) of
                (currentSchema, curTable) \<Rightarrow>
                  queryRaw has_table_sql (count_tables currentSchema curTable ''BASE TABLE'')) c of
        (Inl e, c1) \<Rightarrow> (False, c1)
      | (Inr count, c1) \<Rightarrow> (count > 0, c1))"

definition get_tables_sql :: string where
  "get_tables_sql =
     ''SELECT table_name FROM information_schema.tables WHERE table_schema = ? AND table_type = ?''"

definition select_table_names :: "string \<Rightarrow> string \<Rightarrow> database \<Rightarrow> string list" where
  "select_table_names sch typ d =
     map t_name (filter (\<lambda>r. t_schema r = sch \<and> t_type r = typ) (tables d))"

text \<open>\<^verbatim>\<open>GetTables\<close> returns Go's pair: the list that was scanned and the query's error.\<close>

definition GetTables :: "schema_of \<Rightarrow> statement \<Rightarrow> conn \<Rightarrow> (string list \<times> error option) \<times> conn" where
  "GetTables pg stmt c =
     (case CurrentSchema pg stmt [] of
        (currentSchema, u) \<Rightarrow>
          (case queryRaw get_tables_sql (select_table_names currentSchema ''BASE TABLE'') c of
             (Inl e, c1) \<Rightarrow> (([], Some e), c1)
           | (Inr tableList, c1) \<Rightarrow> ((tableList, None), c1)))"

subsection \<open>The update callback of the dialect\<close>

text \<open>
  gorm's \<^verbatim>\<open>IsValidDBNameChar\<close> (true of a character that cannot be part of a name) and
  \<^verbatim>\<open>strings.FieldsFunc\<close>, which \<^verbatim>\<open>Omit\<close> uses when it is handed one string with a
  comma in it. Characters are bytes here: a byte outside ASCII counts as part of a name.
\<close>

definition IsValidDBNameChar :: "char \<Rightarrow> bool" where
  "IsValidDBNameChar ch =
     (let n = of_char ch :: nat in
      \<not> ((65 \<le> n \<and> n \<le> 90) \<or> (97 \<le> n \<and> n \<le> 122) \<or> 128 \<le> n) \<and>
      \<not> (48 \<le> n \<and> n \<le> 57) \<and>
      ch \<noteq> CHR ''.'' \<and> ch \<noteq> CHR ''*'' \<and> ch \<noteq> CHR ''_'' \<and> ch \<noteq> CHR ''$'' \<and> ch \<noteq> CHR ''@'')"

fun FieldsFunc_acc :: "(char \<Rightarrow> bool) \<Rightarrow> string \<Rightarrow> string \<Rightarrow> string list" where
  "FieldsFunc_acc sep cur [] = (if cur = [] then [] else [cur])"
| "FieldsFunc_acc sep cur (x # xs) =
     (if sep x then (if cur = [] then [] else [cur]) @ FieldsFunc_acc sep [] xs
      else FieldsFunc_acc sep (cur @ [x]) xs)"

definition FieldsFunc :: "string \<Rightarrow> (char \<Rightarrow> bool) \<Rightarrow> string list" where
  "FieldsFunc s sep = FieldsFunc_acc sep [] s"

text \<open>gorm's \<^verbatim>\<open>Omit\<close>, which \<^verbatim>\<open>db.Statement.Omit\<close> reaches through the embedded \<^verbatim>\<open>DB\<close>.\<close>

definition Omit :: "string list \<Rightarrow> statement \<Rightarrow> statement" where
  "Omit cols st =
     (case cols of
        [col] \<Rightarrow>
          if CHR '','' \<in> set col then st\<lparr>Omits := FieldsFunc col IsValidDBNameChar\<rparr>
          else st\<lparr>Omits := cols\<rparr>
      | _ \<Rightarrow> st\<lparr>Omits := cols\<rparr>)"

text \<open>The one case in which \<^verbatim>\<open>Omit\<close> does not take its arguments as they are.\<close>

definition one_name_with_comma :: "string list \<Rightarrow> bool" where
  "one_name_with_comma cols = (case cols of [col] \<Rightarrow> CHR '','' \<in> set col | _ \<Rightarrow> False)"

text \<open>
  \<^verbatim>\<open>BeforeUpdate\<close> (lines 163 to 171 of \<^verbatim>\<open>spanner.go\<close>), on \<^verbatim>\<open>db.Statement\<close>, which
  may be nil.
\<close>

definition BeforeUpdate :: "statement option \<Rightarrow> statement option" where
  "BeforeUpdate st =
     (case st of
        None \<Rightarrow> None
      | Some s \<Rightarrow>
          (case Schema s of
             None \<Rightarrow> Some s
           | Some sch \<Rightarrow>
               (case PrimaryFieldDBNames sch of
                  None \<Rightarrow> Some s
                | Some pks \<Rightarrow> Some (Omit (Omits s @ pks) s))))"

text \<open>
  The primary-key columns of a table as the catalog has them: the columns that a
  \<^verbatim>\<open>PRIMARY KEY\<close> constraint of the table uses.
\<close>

definition primary_key_columns :: "database \<Rightarrow> string \<Rightarrow> string list" where
  "primary_key_columns d tbl =
     concat (map (\<lambda>tc. map ccu_column
                          (filter (\<lambda>u. ccu_name u = tc_name tc \<and> ccu_table u = tbl)
                                  (constraint_column_usage d)))
                 (filter (\<lambda>tc. tc_table tc = tbl \<and> tc_type tc = ''PRIMARY KEY'')
                         (table_constraints d)))"

subsection \<open>What a caller can observe of the connection\<close>

text \<open>
  A connection is quiet when the transport rejects nothing. What the migrator's behaviour
  depends on, besides the faults, is the catalog, the open batch and the two type
  assertions; \<open>issued c c'\<close> is what was sent between two states of one connection.
\<close>

definition quiet :: "conn \<Rightarrow> bool" where
  "quiet c = (\<forall>n. faults c n = None)"

definition observable :: "conn \<Rightarrow> database \<times> string list option \<times> bool \<times> bool" where
  "observable c = (db c, batch c, sql_conn c, spanner_conn c)"

definition issued :: "conn \<Rightarrow> conn \<Rightarrow> command list" where
  "issued c c' = drop (length (log c)) (log c')"

definition sim :: "conn \<Rightarrow> conn \<Rightarrow> bool" where
  "sim c c' = (quiet c \<and> quiet c' \<and> observable c = observable c')"

subsection \<open>ColumnTypes\<close>

text \<open>
  gorm's \<^verbatim>\<open>migrator.ColumnType\<close>: a \<^verbatim>\<open>sql.Null...\<close> member is an option, \<open>None\<close> when
  it is not valid. \<open>SQLColumnType\<close> holds the driver's type name once it is assigned.
\<close>

record ColumnType =
  NameValue :: string
  DataTypeValue :: "string option"
  LengthValue :: "int option"
  DecimalSizeValue :: "int option"
  ScaleValue :: "int option"
  NullableValue :: "bool option"
  DefaultValueValue :: "string option"
  CommentValue :: "string option"
  PrimaryKeyValue :: "bool option"
  UniqueValue :: "bool option"
  AutoIncrementValue :: "bool option"
  ColumnTypeValue :: "string option"
  SQLColumnType :: "string option"

definition generated_id :: string where
  "generated_id = ''spanner_gorm_generated_id''"

text \<open>The rows of the table in \<^verbatim>\<open>information_schema.columns\<close>, without the generated key.\<close>

definition table_columns :: "string \<Rightarrow> string \<Rightarrow> database \<Rightarrow> column_row list" where
  "table_columns sch tbl d =
     filter (\<lambda>r. c_schema r = sch \<and> c_table r = tbl \<and> c_name r \<noteq> generated_id) (columns d)"

text \<open>The body of the loop over the rows of the first query (lines 351 to 390).\<close>

definition scan_column :: "column_row \<Rightarrow> ColumnType" where
  "scan_column r =
     (let typeLenValue = map_option (\<lambda>l. 8 * l) (c_typlen r);
          column = \<lparr>NameValue = c_name r, DataTypeValue = c_udt_name r,
                    LengthValue = c_character_maximum_length r,
                    DecimalSizeValue = c_numeric_precision r,
                    ScaleValue = c_numeric_scale r,
                    NullableValue = Some (c_is_nullable r = ''YES''),
                    DefaultValueValue = c_column_default r,
                    CommentValue = c_description r,
                    PrimaryKeyValue = Some False, UniqueValue = Some False,
                    AutoIncrementValue = None, ColumnTypeValue = None, SQLColumnType = None\<rparr>;
          column = (case typeLenValue of
                      Some l \<Rightarrow> if l > 0 then column\<lparr>LengthValue := typeLenValue\<rparr> else column
                    | None \<Rightarrow> column);
          column = (if autoIncrementValuePattern
                         (case DefaultValueValue column of Some v \<Rightarrow> v | None \<Rightarrow> [])
                       \<or> (case c_identity_increment r of Some i \<Rightarrow> i \<noteq> [] | None \<Rightarrow> False)
                    then column\<lparr>AutoIncrementValue := Some True, DefaultValueValue := None\<rparr>
                    else column);
          column = column\<lparr>DefaultValueValue :=
                             map_option parseDefaultValueValue (DefaultValueValue column)\<rparr>
      in (case c_datetime_precision r of
            Some p \<Rightarrow> column\<lparr>DecimalSizeValue := Some p\<rparr>
          | None \<Rightarrow> column))"

text \<open>
  The inner loops assign to the first column of the list that has the name, and stop
  there.
\<close>

fun update_first :: "string \<Rightarrow> (ColumnType \<Rightarrow> ColumnType) \<Rightarrow> ColumnType list \<Rightarrow> ColumnType list" where
  "update_first n f [] = []"
| "update_first n f (x # xs) = (if NameValue x = n then f x # xs else x # update_first n f xs)"

text \<open>
  \<^verbatim>\<open>GetRows\<close> of the PostgreSQL migrator reads one row of the table; the migrator
  takes the column types of that result: every column of the table, by name.
\<close>

definition raw_column_types :: "string \<Rightarrow> string \<Rightarrow> database \<Rightarrow> (string \<times> string) list" where
  "raw_column_types sch tbl d =
     map (\<lambda>r. (c_name r, c_driver_type r))
         (filter (\<lambda>r. c_schema r = sch \<and> c_table r = tbl) (columns d))"

definition assign_sql_column_type :: "(string \<times> string) list \<Rightarrow> ColumnType \<Rightarrow> ColumnType" where
  "assign_sql_column_type raw ct =
     (case find (\<lambda>(n, t). n = NameValue ct) raw of
        Some (n, t) \<Rightarrow> ct\<lparr>SQLColumnType := Some t\<rparr>
      | None \<Rightarrow> ct)"

text \<open>
  The two constraint queries (lines 423 and 442): \<^verbatim>\<open>table_constraints\<close> joined to
  \<^verbatim>\<open>constraint_column_usage\<close> by schema, catalog, table name and constraint name, joined
  to \<^verbatim>\<open>columns\<close> by schema, table name and column name, for the schema and table asked
  for. The rows are the column name, the constraint name and the constraint type.
\<close>

definition constraint_rows :: "string \<Rightarrow> string \<Rightarrow> database \<Rightarrow> (string \<times> string \<times> string) list" where
  "constraint_rows sch tbl d =
     concat (map (\<lambda>tc.
       concat (map (\<lambda>ccu.
         map (\<lambda>c. (c_name c, tc_name tc, tc_type tc))
             (filter (\<lambda>c. c_schema c = tc_schema tc \<and> tc_table tc = c_table c \<and>
                           ccu_column ccu = c_name c \<and>
                           c_schema c = sch \<and> c_table c = tbl \<and> c_name c \<noteq> generated_id)
                     (columns d)))
         (filter (\<lambda>ccu. tc_schema tc = ccu_schema ccu \<and> tc_catalog tc = ccu_catalog ccu \<and>
                         tc_table tc = ccu_table ccu \<and> tc_name tc = ccu_name ccu)
                 (constraint_column_usage d))))
       (filter (\<lambda>tc. tc_type tc = ''PRIMARY KEY'' \<or> tc_type tc = ''UNIQUE'')
               (table_constraints d)))"

definition unique_constraint_names :: "string \<Rightarrow> string \<Rightarrow> database \<Rightarrow> string list" where
  "unique_constraint_names sch tbl d =
     map (\<lambda>(col, name, typ). name)
         (filter (\<lambda>(col, name, typ). typ = ''UNIQUE'') (constraint_rows sch tbl d))"

text \<open>The loop over the rows of the second constraint query (lines 446 to 465).\<close>

fun check_primary_unique ::
  "string list \<Rightarrow> (string \<times> string \<times> string) list \<Rightarrow> ColumnType list \<Rightarrow> ColumnType list" where
  "check_primary_unique uniqueContraints [] cts = cts"
| "check_primary_unique uniqueContraints ((name, constraintName, columnType) # rows) cts =
     check_primary_unique uniqueContraints rows
       (update_first name
          (\<lambda>mc. if columnType = ''PRIMARY KEY'' then mc\<lparr>PrimaryKeyValue := Some True\<rparr>
                 else if columnType = ''UNIQUE'' then
                   (if count_list uniqueContraints constraintName = 1
                    then mc\<lparr>UniqueValue := Some True\<rparr> else mc)
                 else mc)
          cts)"

text \<open>The query for the Spanner type and its loop (lines 476 to 503).\<close>

definition spanner_type_rows :: "string \<Rightarrow> string \<Rightarrow> database \<Rightarrow> (string \<times> string) list" where
  "spanner_type_rows sch tbl d = map (\<lambda>r. (c_name r, c_spanner_type r)) (table_columns sch tbl d)"

fun check_column_type :: "(string \<times> string) list \<Rightarrow> ColumnType list \<Rightarrow> ColumnType list" where
  "check_column_type [] cts = cts"
| "check_column_type ((name, dataType) # rows) cts =
     check_column_type rows
       (update_first name
          (\<lambda>mc. let mc = mc\<lparr>ColumnTypeValue := Some dataType\<rparr> in
                 if HasPrefix (case DataTypeValue mc of Some t \<Rightarrow> t | None \<Rightarrow> []) ''_''
                 then mc\<lparr>DataTypeValue := Some dataType\<rparr> else mc)
          cts)"

definition columns_sql :: string where
  "columns_sql =
     ''SELECT c.column_name, c.is_nullable = 'YES', c.udt_name, c.character_maximum_length, c.numeric_precision, c.numeric_precision_radix, c.numeric_scale, c.datetime_precision, 8 * typlen, c.column_default, pd.description, c.identity_increment '' @
     ''FROM information_schema.columns AS c '' @
     ''LEFT JOIN pg_catalog.pg_type AS pgt ON c.udt_name = pgt.typname '' @
     ''LEFT JOIN pg_catalog.pg_description as pd ON pd.objsubid = c.ordinal_position AND pd.objoid = (SELECT oid FROM pg_catalog.pg_class WHERE relname = c.table_name AND relnamespace = (SELECT oid FROM pg_catalog.pg_namespace WHERE nspname = c.table_schema)) '' @
     ''where table_schema = ? AND table_name = ? and not column_name='spanner_gorm_generated_id'' @ [apostrophe]"

definition get_rows_sql :: string where
  "get_rows_sql = ''SELECT * FROM ? LIMIT 1''"

definition unique_constraints_sql :: string where
  "unique_constraints_sql =
     ''SELECT constraint_name FROM information_schema.table_constraints tc JOIN information_schema.constraint_column_usage AS ccu USING (constraint_schema, constraint_catalog, table_name, constraint_name) JOIN information_schema.columns AS c ON c.table_schema = tc.constraint_schema AND tc.table_name = c.table_name AND ccu.column_name = c.column_name WHERE constraint_type IN ('PRIMARY KEY', 'UNIQUE') AND c.table_schema = ? AND c.table_name = ? AND constraint_type = ? and not c.column_name='spanner_gorm_generated_id'' @ [apostrophe]"

definition constraints_sql :: string where
  "constraints_sql =
     ''SELECT c.column_name, constraint_name, constraint_type FROM information_schema.table_constraints tc JOIN information_schema.constraint_column_usage AS ccu USING (constraint_schema, constraint_catalog, table_name, constraint_name) JOIN information_schema.columns AS c ON c.table_schema = tc.constraint_schema AND tc.table_name = c.table_name AND ccu.column_name = c.column_name WHERE constraint_type IN ('PRIMARY KEY', 'UNIQUE') AND c.table_schema = ? AND c.table_name = ? and not c.column_name='spanner_gorm_generated_id'' @ [apostrophe]"

definition spanner_type_sql :: string where
  "spanner_type_sql =
     ''select column_name, spanner_type as data_type from information_schema.columns where table_schema=? and table_name=? and not column_name='spanner_gorm_generated_id'' @ [apostrophe]"

text \<open>
  \<^verbatim>\<open>ColumnTypes\<close> (lines 333 to 515). The result is Go's pair: \<^verbatim>\<open>columnTypes\<close> is a
  named result, so an error return hands back the list as far as it was built.
\<close>

definition ColumnTypes_stmt ::
  "schema_of \<Rightarrow> statement \<Rightarrow> conn \<Rightarrow> (ColumnType list \<times> error option) \<times> conn" where
  "ColumnTypes_stmt pg stmt c =
     (case CurrentSchema pg stmt (Stmt_Table stmt) of
        (currentSchema, table) \<Rightarrow>
     (case queryRaw columns_sql (table_columns currentSchema table) c of
        (Inl e, c1) \<Rightarrow> (([], Some e), c1)
      | (Inr rows, c1) \<Rightarrow>
     let cts = map scan_column rows in
     (case queryRaw get_rows_sql (raw_column_types currentSchema table) c1 of
        (Inl e, c2) \<Rightarrow> ((cts, Some e), c2)
      | (Inr rawColumnTypes, c2) \<Rightarrow>
     let cts = map (assign_sql_column_type rawColumnTypes) cts in
     (case queryRaw unique_constraints_sql (unique_constraint_names currentSchema table) c2 of
        (Inl e, c3) \<Rightarrow> ((cts, Some e), c3)
      | (Inr uniqueContraints, c3) \<Rightarrow>
     (case queryRaw constraints_sql (constraint_rows currentSchema table) c3 of
        (Inl e, c4) \<Rightarrow> ((cts, Some e), c4)
      | (Inr rows, c4) \<Rightarrow>
     let cts = check_primary_unique uniqueContraints rows cts in
     (case queryRaw spanner_type_sql (spanner_type_rows currentSchema table) c4 of
        (Inl e, c5) \<Rightarrow> ((cts, Some e), c5)
      | (Inr rows, c5) \<Rightarrow> ((check_column_type rows cts, None), c5)))))))"

definition ColumnTypes ::
  "schema_of \<Rightarrow> model_value \<Rightarrow> conn \<Rightarrow> (ColumnType list \<times> error option) \<times> conn" where
  "ColumnTypes pg v c =
     (case parse_value v of
        Inl e \<Rightarrow> (([], Some e), c)
      | Inr stmt \<Rightarrow> ColumnTypes_stmt pg stmt c)"

subsection \<open>The library underneath\<close>

text \<open>
  What the migrator calls of gorm and of its PostgreSQL driver, none of it in the
  repository: each is a parameter. \<open>lib_GormDBDataType\<close> is the type a field's Go type
  names for itself (empty when it names none), \<open>lib_CurrentTable\<close> and \<open>lib_quote\<close>
  render a table and a column as the statement text has them, \<open>lib_explain\<close> renders a
  default value, and the three sequence operations issue statements of their own, as do
  \<open>lib_DropConstraint\<close>, \<open>lib_DropIndex\<close> and \<open>lib_CreateConstraint\<close>. \<open>lib_ReorderModels\<close>
  is gorm's dependency orderer as \<^verbatim>\<open>DropTable\<close> calls it, without adding models, and
  \<open>lib_UniqueName\<close> is the naming strategy's name for the unique constraint of a column.
\<close>

record gorm_lib =
  lib_schema_of :: schema_of
  lib_GormDBDataType :: "gorm_field \<Rightarrow> string"
  lib_pg_DataTypeOf :: "gorm_field \<Rightarrow> string"
  lib_GetTypeAliases :: "string \<Rightarrow> string list"
  lib_CurrentTable :: "statement \<Rightarrow> string"
  lib_quote :: "string \<Rightarrow> string"
  lib_explain :: "string \<Rightarrow> string"
  lib_UpdateSequence :: "statement \<Rightarrow> gorm_field \<Rightarrow> string \<Rightarrow> prog"
  lib_CreateSequence :: "statement \<Rightarrow> gorm_field \<Rightarrow> string \<Rightarrow> prog"
  lib_DeleteSequence :: "statement \<Rightarrow> gorm_field \<Rightarrow> string \<Rightarrow> prog"
  lib_ReorderModels :: "model_value list \<Rightarrow> model_value list"
  lib_DropConstraint :: "string \<Rightarrow> string \<Rightarrow> prog"
  lib_DropIndex :: "string \<Rightarrow> string \<Rightarrow> prog"
  lib_CreateConstraint :: "string \<Rightarrow> string \<Rightarrow> prog"
  lib_UniqueName :: "string \<Rightarrow> string \<Rightarrow> string"

text \<open>\<^verbatim>\<open>DataTypeOf\<close> of the dialect (lines 252 to 270 of \<^verbatim>\<open>spanner.go\<close>).\<close>

definition DataTypeOf :: "gorm_lib \<Rightarrow> gorm_field \<Rightarrow> string" where
  "DataTypeOf lib field =
     (if DataType field = ''int'' \<or> DataType field = ''uint'' then
        (if AutoIncrement field then ''serial'' else ''int'')
      else if DataType field = ''float'' then ''numeric''
      else if DataType field = ''time'' then ''timestamptz''
      else if AutoIncrement field then ''serial''
      else lib_pg_DataTypeOf lib field)"

text \<open>
  \<^verbatim>\<open>m.DataTypeOf\<close> is gorm's: the type the field's Go type names for itself, and the
  dialect's answer otherwise.
\<close>

definition migrator_DataTypeOf :: "gorm_lib \<Rightarrow> gorm_field \<Rightarrow> string" where
  "migrator_DataTypeOf lib field =
     (let dataType = lib_GormDBDataType lib field in
      if dataType \<noteq> [] then dataType else DataTypeOf lib field)"

definition getSerialDatabaseType :: "string \<Rightarrow> string \<times> bool" where
  "getSerialDatabaseType s =
     (if s = ''smallserial'' then (''integer'', True)
      else if s = ''serial'' then (''integer'', True)
      else if s = ''bigserial'' then (''bigint'', True)
      else ([], False))"

text \<open>
  The methods of \<^verbatim>\<open>migrator.ColumnType\<close> that \<^verbatim>\<open>AlterColumn\<close> calls.
  \<^verbatim>\<open>DatabaseTypeName\<close> falls back on the driver's type, and dereferences nil (here
  \<open>None\<close>) when that was never assigned.
\<close>

definition DatabaseTypeName :: "ColumnType \<Rightarrow> string option" where
  "DatabaseTypeName ct =
     (case DataTypeValue ct of Some t \<Rightarrow> Some t | None \<Rightarrow> SQLColumnType ct)"

definition string_of :: "string option \<Rightarrow> string" where
  "string_of v = (case v of Some s \<Rightarrow> s | None \<Rightarrow> [])"

definition bool_of :: "bool option \<Rightarrow> bool" where
  "bool_of v = (case v of Some b \<Rightarrow> b | None \<Rightarrow> False)"

subsection \<open>AlterColumn\<close>

definition and_then ::
  "(conn \<Rightarrow> error option \<times> conn) \<Rightarrow> (conn \<Rightarrow> error option \<times> conn) \<Rightarrow> conn \<Rightarrow> error option \<times> conn" where
  "and_then f g c = (case f c of (Some e, c1) \<Rightarrow> (Some e, c1) | (None, c1) \<Rightarrow> g c1)"

definition skip :: "conn \<Rightarrow> error option \<times> conn" where
  "skip c = (None, c)"

definition alter_column_sql :: "gorm_lib \<Rightarrow> statement \<Rightarrow> gorm_field \<Rightarrow> string \<Rightarrow> string" where
  "alter_column_sql lib stmt field action =
     ''ALTER TABLE '' @ lib_CurrentTable lib stmt @ '' ALTER COLUMN '' @ lib_quote lib (DBName field) @
     '' '' @ action"

text \<open>\<^verbatim>\<open>modifyColumn\<close> (lines 639 to 666).\<close>

definition modifyColumn ::
  "gorm_lib \<Rightarrow> ddl_service \<Rightarrow> statement \<Rightarrow> gorm_field \<Rightarrow> string \<Rightarrow> ColumnType \<Rightarrow> conn \<Rightarrow> error option \<times> conn" where
  "modifyColumn lib srv stmt field targetType existingColumn c =
     (let isUncastableDefaultValue = (targetType = ''boolean'') in
      if isUncastableDefaultValue \<and> DatabaseTypeName existingColumn = None
      then (Some (Panic ''nil pointer dereference''), c)
      else
        (let using = (isUncastableDefaultValue \<and>
                      (DatabaseTypeName existingColumn = Some ''int2'' \<or>
                       DatabaseTypeName existingColumn = Some ''int8'' \<or>
                       DatabaseTypeName existingColumn = Some ''numeric''));
             alterSQL = alter_column_sql lib stmt field
                          (''TYPE '' @ targetType @
                           (if using then '' USING '' @ lib_quote lib (DBName field) @ ''::int::'' @ targetType
                            else []))
         in and_then
              (if string_of (DefaultValueValue existingColumn) \<noteq> [] \<and> isUncastableDefaultValue
               then ExecDDL srv (alter_column_sql lib stmt field ''DROP DEFAULT'')
               else skip)
              (ExecDDL srv alterSQL) c))"

definition is_generated_sql :: string where
  "is_generated_sql =
     ''SELECT count(*) FROM INFORMATION_SCHEMA.columns WHERE table_schema = ? AND table_name = ? AND column_name = ? AND generation_expression IS NOT NULL''"

definition count_generated :: "string \<Rightarrow> string \<Rightarrow> string \<Rightarrow> database \<Rightarrow> int" where
  "count_generated sch tbl name d =
     int (length (filter (\<lambda>r. c_schema r = sch \<and> c_table r = tbl \<and> c_name r = name \<and>
                               c_generation_expression r \<noteq> None)
                         (columns d)))"

text \<open>
  \<^verbatim>\<open>isColumnGenerated\<close> (lines 668 to 684). The error of \<^verbatim>\<open>RunWithValue\<close> is dropped
  and the count stays zero; the schema name is the constant \<^verbatim>\<open>public\<close> and the table
  name is \<^verbatim>\<open>stmt.Table\<close> as it is. \<^verbatim>\<open>stmt.Schema\<close> is dereferenced without a nil check:
  that panic is the \<open>Inl\<close> result.
\<close>

definition isColumnGenerated :: "model_value \<Rightarrow> string \<Rightarrow> conn \<Rightarrow> (error + bool) \<times> conn" where
  "isColumnGenerated v field c =
     (case parse_value v of
        Inl e \<Rightarrow> (Inr False, c)
      | Inr stmt \<Rightarrow>
          (case Schema stmt of
             None \<Rightarrow> (Inl (Panic ''nil pointer dereference''), c)
           | Some sch \<Rightarrow>
               (let name = (case LookUpField sch field of Some f \<Rightarrow> DBName f | None \<Rightarrow> field) in
                case queryRaw is_generated_sql (count_generated ''public'' (Stmt_Table stmt) name) c of
                  (Inl e, c1) \<Rightarrow> (Inr False, c1)
                | (Inr count, c1) \<Rightarrow> (Inr (count > 0), c1))))"

text \<open>
  The type migration of \<^verbatim>\<open>AlterColumn\<close> (lines 565 to 588), entered when the live and
  the declared type are not the same.
\<close>

definition migrate_type ::
  "gorm_lib \<Rightarrow> ddl_service \<Rightarrow> statement \<Rightarrow> gorm_field \<Rightarrow> string \<Rightarrow> ColumnType \<Rightarrow> conn \<Rightarrow> error option \<times> conn" where
  "migrate_type lib srv stmt field fileType fieldColumnType =
     (let filedColumnAutoIncrement = bool_of (AutoIncrementValue fieldColumnType) in
      if AutoIncrement field \<and> filedColumnAutoIncrement then
        (let serialDatabaseType = fst (getSerialDatabaseType fileType) in
         if string_of (ColumnTypeValue fieldColumnType) \<noteq> serialDatabaseType
         then run_prog srv (lib_UpdateSequence lib stmt field serialDatabaseType)
         else skip)
      else if AutoIncrement field \<and> \<not> filedColumnAutoIncrement then
        run_prog srv (lib_CreateSequence lib stmt field (fst (getSerialDatabaseType fileType)))
      else if \<not> AutoIncrement field \<and> filedColumnAutoIncrement then
        run_prog srv (lib_DeleteSequence lib stmt field fileType)
      else modifyColumn lib srv stmt field fileType fieldColumnType)"

text \<open>The nullability step (lines 590 to 600).\<close>

definition migrate_nullable ::
  "gorm_lib \<Rightarrow> ddl_service \<Rightarrow> statement \<Rightarrow> gorm_field \<Rightarrow> ColumnType \<Rightarrow> conn \<Rightarrow> error option \<times> conn" where
  "migrate_nullable lib srv stmt field fieldColumnType =
     (if bool_of (NullableValue fieldColumnType) = NotNull field then
        (if NotNull field then ExecDDL srv (alter_column_sql lib stmt field ''SET NOT NULL'')
         else ExecDDL srv (alter_column_sql lib stmt field ''DROP NOT NULL''))
      else skip)"

text \<open>The default-value step (lines 602 to 626).\<close>

definition migrate_default ::
  "gorm_lib \<Rightarrow> ddl_service \<Rightarrow> statement \<Rightarrow> gorm_field \<Rightarrow> ColumnType \<Rightarrow> conn \<Rightarrow> error option \<times> conn" where
  "migrate_default lib srv stmt field fieldColumnType =
     (let v = string_of (DefaultValueValue fieldColumnType);
          ok = (DefaultValueValue fieldColumnType \<noteq> None) in
      if (DefaultValueInterface field = None \<and> ok) \<or> v \<noteq> DefaultValue field then
        (if HasDefaultValue field \<and> (DefaultValueInterface field \<noteq> None \<or> DefaultValue field \<noteq> []) then
           (case DefaultValueInterface field of
              Some dv \<Rightarrow>
                ExecDDL srv (alter_column_sql lib stmt field (''SET DEFAULT '' @ lib_explain lib dv))
            | None \<Rightarrow>
                if DefaultValue field \<noteq> ''(-)''
                then ExecDDL srv (alter_column_sql lib stmt field (''SET DEFAULT '' @ DefaultValue field))
                else ExecDDL srv (alter_column_sql lib stmt field ''DROP DEFAULT''))
         else if \<not> HasDefaultValue field
           then ExecDDL srv (alter_column_sql lib stmt field ''DROP DEFAULT'')
         else skip)
      else skip)"

text \<open>
  \<^verbatim>\<open>AlterColumn\<close> for a field that was found (lines 536 to 627). The error of
  \<^verbatim>\<open>ColumnTypes\<close> is dropped; the loop keeps the last column type of the name.
\<close>

definition AlterColumn_field ::
  "gorm_lib \<Rightarrow> ddl_service \<Rightarrow> model_value \<Rightarrow> statement \<Rightarrow> gorm_field \<Rightarrow> conn \<Rightarrow> error option \<times> conn" where
  "AlterColumn_field lib srv v stmt field c =
     (case ColumnTypes (lib_schema_of lib) v c of
        ((columnTypes, u), c1) \<Rightarrow>
          (case find (\<lambda>ct. NameValue ct = DBName field) (rev columnTypes) of
             None \<Rightarrow> (Some (Error (''column type not found: '' @ DBName field)), c1)
           | Some fieldColumnType \<Rightarrow>
               (case DatabaseTypeName fieldColumnType of
                  None \<Rightarrow> (Some (Panic ''nil pointer dereference''), c1)
                | Some typeName \<Rightarrow>
                    (let fileType = migrator_DataTypeOf lib field;
                         isSameType =
                           (EqualFold typeName fileType \<or>
                            list_ex (\<lambda>alias. HasPrefix fileType alias) (lib_GetTypeAliases lib typeName))
                     in and_then
                          (if \<not> isSameType
                           then migrate_type lib srv stmt field fileType fieldColumnType
                           else skip)
                          (and_then (migrate_nullable lib srv stmt field fieldColumnType)
                                    (migrate_default lib srv stmt field fieldColumnType)) c1))))"

text \<open>\<^verbatim>\<open>AlterColumn\<close> (lines 528 to 637).\<close>

definition AlterColumn ::
  "gorm_lib \<Rightarrow> ddl_service \<Rightarrow> model_value \<Rightarrow> string \<Rightarrow> conn \<Rightarrow> error option \<times> conn" where
  "AlterColumn lib srv v field c =
     (case isColumnGenerated v field c of
        (Inl p, c1) \<Rightarrow> (Some p, c1)
      | (Inr True, c1) \<Rightarrow> (None, c1)
      | (Inr False, c1) \<Rightarrow>
          (case parse_value v of
             Inl e \<Rightarrow> (Some e, c1)
           | Inr stmt \<Rightarrow>
               (case Schema stmt of
                  None \<Rightarrow> (Some (Error (''failed to look up field with name: '' @ field)), c1)
                | Some sch \<Rightarrow>
                    (case LookUpField sch field of
                       None \<Rightarrow> (Some (Error (''failed to look up field with name: '' @ field)), c1)
                     | Some f \<Rightarrow> AlterColumn_field lib srv v stmt f c1))))"


subsection \<open>The rows of one table\<close>

text \<open>
  The part of the catalog that belongs to one table: its rows in \<^verbatim>\<open>columns\<close>, its
  constraints in \<^verbatim>\<open>table_constraints\<close>, and the rows of \<^verbatim>\<open>constraint_column_usage\<close>
  for its own constraints. A foreign key of another table that references this one has
  a row in \<^verbatim>\<open>constraint_column_usage\<close> under this table's name; it is a constraint of
  the other table and no part of this one. Two catalogs that differ only in other
  tables have the same part.
\<close>

definition table_part :: "string \<Rightarrow> string \<Rightarrow> database \<Rightarrow> database" where
  "table_part sch tbl d =
     d\<lparr>columns := filter (\<lambda>r. c_schema r = sch \<and> c_table r = tbl) (columns d),
       table_constraints :=
         filter (\<lambda>r. tc_schema r = sch \<and> tc_table r = tbl) (table_constraints d),
       constraint_column_usage :=
         filter (\<lambda>u. ccu_schema u = sch \<and> ccu_table u = tbl \<and>
                      list_ex (\<lambda>r. tc_schema r = sch \<and> tc_table r = tbl \<and>
                                    tc_catalog r = ccu_catalog u \<and> tc_name r = ccu_name u)
                              (table_constraints d))
                (constraint_column_usage d)\<rparr>"


subsection \<open>DropTable\<close>













subsection \<open>Order of creation and of dropping\<close>



datatype action =
  CreateSequence string
| CreateTable string
| AddForeignKey string string
| CreateIndex string string



subsection \<open>A DDL service without UNIQUE constraints\<close>

text \<open>
  Modelled from the spec: the dialect "rejects (signals an error) any request to create a
  genuine UNIQUE table constraint" with "a specific, stable error", and what it rejects
  it does not apply. In the PostgreSQL dialect the refusal is the DDL service's, and the
  error is the one \<^verbatim>\<open>TestMigrateUniqueFieldFails\<close> expects; which statements hold such a
  constraint is a parameter, and every other request goes to the service underneath.
\<close>

definition unique_constraint_not_supported :: error where
  "unique_constraint_not_supported =
     Error ''rpc error: code = FailedPrecondition desc = <UNIQUE> constraint is not supported, create a unique index instead.''"

definition rejecting_unique :: "(string \<Rightarrow> bool) \<Rightarrow> ddl_service \<Rightarrow> ddl_service" where
  "rejecting_unique is_unique_constraint srv stmts d =
     (if list_ex is_unique_constraint stmts then (Some unique_constraint_not_supported, d)
      else srv stmts d)"

subsection \<open>Text inside a statement\<close>

text \<open>\<open>mentions s x\<close>: the text \<open>x\<close> stands somewhere in \<open>s\<close> (\<^verbatim>\<open>strings.Contains\<close>).\<close>

fun starts_with :: "string \<Rightarrow> string \<Rightarrow> bool" where
  "starts_with s [] = True"
| "starts_with [] (y # ys) = False"
| "starts_with (c # s) (y # ys) = (c = y \<and> starts_with s ys)"

fun mentions :: "string \<Rightarrow> string \<Rightarrow> bool" where
  "mentions [] x = (x = [])"
| "mentions (c # s) x = (starts_with (c # s) x \<or> mentions s x)"





subsection \<open>Uniqueness in the migration of an existing column\<close>

text \<open>
  gorm's \<^verbatim>\<open>MigrateColumnUnique\<close> (the library's, not in the repository), with which its
  \<^verbatim>\<open>MigrateColumn\<close> ends: it compares the unique flag that \<^verbatim>\<open>ColumnTypes\<close> reported with
  the field's tag, and drops or creates the constraint that the naming strategy names.
  Primary keys are skipped, and so is a column type without a unique flag.
\<close>

datatype constraint_change = DropConstraint string string | CreateConstraint string string

definition unique_change ::
  "gorm_lib \<Rightarrow> statement \<Rightarrow> gorm_field \<Rightarrow> ColumnType \<Rightarrow> constraint_change option" where
  "unique_change lib stmt field columnType =
     (case UniqueValue columnType of
        None \<Rightarrow> None
      | Some unique \<Rightarrow>
          if PrimaryKey field then None
          else
            let constraint = lib_UniqueName lib (Stmt_Table stmt) (DBName field) in
            if unique \<and> \<not> Unique field then Some (DropConstraint (Stmt_Table stmt) constraint)
            else if \<not> unique \<and> Unique field
              then Some (CreateConstraint (Stmt_Table stmt) constraint)
            else None)"






subsection \<open>Fixtures for concrete runs\<close>

definition empty_database :: database where
  "empty_database =
     \<lparr>tables = [], columns = [], table_constraints = [], constraint_column_usage = [],
      constraint_table_usage = [], indexes = [], database_options = []\<rparr>"

definition fresh_conn :: conn where
  "fresh_conn =
     \<lparr>db = empty_database, batch = None, log = [], faults = (\<lambda>n. None),
      sql_conn = True, spanner_conn = True\<rparr>"

text \<open>A DDL service that accepts every request and leaves the catalog as it is.\<close>

definition accepting_service :: ddl_service where
  "accepting_service stmts d = (None, d)"

text \<open>A base migrator that creates one table and passes on what the statement returned.\<close>

definition create_singers :: prog where
  "create_singers = ExecP ''CREATE TABLE \"singers\" (\"id\" serial,PRIMARY KEY (\"id\"))'' Ret"

text \<open>The PostgreSQL migrator's answer for a table name without a schema prefix.\<close>

definition plain_table :: schema_of where
  "plain_table stmt t = (None, t)"

text \<open>A catalog with the table \<^verbatim>\<open>singers\<close> and its primary key on \<^verbatim>\<open>id\<close>.\<close>

definition plain_column :: "string \<Rightarrow> string \<Rightarrow> string \<Rightarrow> column_row" where
  "plain_column sch tbl name =
     \<lparr>c_schema = sch, c_table = tbl, c_name = name, c_is_nullable = ''YES'',
      c_udt_name = Some ''varchar'', c_character_maximum_length = None,
      c_numeric_precision = None, c_numeric_scale = None, c_datetime_precision = None,
      c_typlen = None, c_column_default = None, c_description = None,
      c_identity_increment = None, c_spanner_type = ''character varying'',
      c_driver_type = ''varchar'', c_generation_expression = None\<rparr>"

definition singers_database :: database where
  "singers_database =
     empty_database\<lparr>
       tables := [\<lparr>t_schema = ''public'', t_name = ''singers'', t_type = ''BASE TABLE''\<rparr>],
       columns :=
         [(plain_column ''public'' ''singers'' ''id'')
             \<lparr>c_is_nullable := ''NO'', c_udt_name := Some ''int8'', c_spanner_type := ''bigint'',
              c_driver_type := ''int8'', c_identity_increment := Some ''1''\<rparr>,
          (plain_column ''public'' ''singers'' ''full_name'')
             \<lparr>c_generation_expression := Some ''(first_name || last_name)''\<rparr>],
       table_constraints :=
         [\<lparr>tc_catalog = [], tc_schema = ''public'', tc_table = ''singers'',
           tc_name = ''PK_singers'', tc_type = ''PRIMARY KEY''\<rparr>],
       constraint_column_usage :=
         [\<lparr>ccu_catalog = [], ccu_schema = ''public'', ccu_table = ''singers'',
           ccu_column = ''id'', ccu_name = ''PK_singers''\<rparr>]\<rparr>"

text \<open>The table is there, and the transport rejects the first command.\<close>

definition first_command_fails :: conn where
  "first_command_fails =
     fresh_conn\<lparr>db := singers_database,
                faults := (\<lambda>n. if n = 0 then Some (Error ''connection closed'') else None)\<rparr>"

text \<open>An update by table name: gorm has no schema for it.\<close>

definition update_by_table_name :: statement where
  "update_by_table_name = \<lparr>Stmt_Table = ''singers'', Schema = None, Omits = []\<rparr>"


text \<open>The model \<^verbatim>\<open>Singer\<close> of the tests, as far as the migrator reads it.\<close>

definition id_field :: gorm_field where
  "id_field =
     \<lparr>Name = ''ID'', DBName = ''id'', DataType = ''uint'', PrimaryKey = True,
      AutoIncrement = True, NotNull = False, HasDefaultValue = True, DefaultValue = [],
      DefaultValueInterface = None, IgnoreMigration = False, Unique = False\<rparr>"

definition full_name_field :: gorm_field where
  "full_name_field =
     \<lparr>Name = ''FullName'', DBName = ''full_name'',
      DataType = ''varchar generated always as (first_name || last_name) stored'',
      PrimaryKey = False, AutoIncrement = False, NotNull = False, HasDefaultValue = True,
      DefaultValue = ''(-)'', DefaultValueInterface = None, IgnoreMigration = False, Unique = False\<rparr>"

definition singers_schema :: gorm_schema where
  "singers_schema =
     \<lparr>Table = ''singers'', Fields = [id_field, full_name_field],
      PrimaryFieldDBNames = Some [''id'']\<rparr>"

definition update_singer :: statement where
  "update_singer =
     \<lparr>Stmt_Table = ''singers'', Schema = Some singers_schema, Omits = [''created_at'']\<rparr>"

text \<open>
  A library for concrete runs: names in double quotes, the one alias of \<^verbatim>\<open>varchar\<close>, a
  type written in the tag taken as it is, sequence operations that do nothing, an
  orderer that keeps the order it is given, and \<^verbatim>\<open>uni_table_column\<close> as the name of a
  column's unique constraint.
\<close>

definition quoted :: "string \<Rightarrow> string" where
  "quoted n = [double_quote] @ n @ [double_quote]"

definition postgres_lib :: gorm_lib where
  "postgres_lib =
     \<lparr>lib_schema_of = plain_table,
      lib_GormDBDataType = (\<lambda>f. []),
      lib_pg_DataTypeOf = (\<lambda>f. DataType f),
      lib_GetTypeAliases = (\<lambda>t. if t = ''varchar'' then [''character varying''] else []),
      lib_CurrentTable = (\<lambda>s. quoted (Stmt_Table s)),
      lib_quote = quoted,
      lib_explain = (\<lambda>v. v),
      lib_UpdateSequence = (\<lambda>s f t. Ret None),
      lib_CreateSequence = (\<lambda>s f t. Ret None),
      lib_DeleteSequence = (\<lambda>s f t. Ret None),
      lib_ReorderModels = (\<lambda>values. values),
      lib_DropConstraint =
        (\<lambda>t n. ExecP (''ALTER TABLE '' @ quoted t @ '' DROP CONSTRAINT '' @ quoted n) Ret),
      lib_DropIndex = (\<lambda>t n. ExecP (''DROP INDEX '' @ quoted n) Ret),
      lib_CreateConstraint =
        (\<lambda>t n. ExecP (''ALTER TABLE '' @ quoted t @ '' ADD CONSTRAINT '' @ quoted n) Ret),
      lib_UniqueName = (\<lambda>t col. ''uni_'' @ t @ ''_'' @ col)\<rparr>"

text \<open>The same catalog with \<^verbatim>\<open>full_name\<close> as an ordinary column.\<close>

definition singers_database_plain :: database where
  "singers_database_plain =
     singers_database\<lparr>columns := map (\<lambda>r. r\<lparr>c_generation_expression := None\<rparr>)
                                      (columns singers_database)\<rparr>"

text \<open>
  The model \<open>As\<close> of \<^verbatim>\<open>TestMigrateMultipleTimesUniqueIndexSameFieldName\<close>, as far as the
  migrator reads it; the catalog with its table \<^verbatim>\<open>as\<close> alone; and the catalog with
  \<^verbatim>\<open>bs\<close> beside it, whose column \<^verbatim>\<open>sha256\<close> is unique. In the second, \<^verbatim>\<open>bs\<close> also has
  a foreign key to \<^verbatim>\<open>as\<close>, which puts a row under the name of \<^verbatim>\<open>as\<close> into
  \<^verbatim>\<open>constraint_column_usage\<close>.
\<close>

definition sha256_field :: gorm_field where
  "sha256_field =
     \<lparr>Name = ''SHA256'', DBName = ''sha256'', DataType = ''string'', PrimaryKey = False,
      AutoIncrement = False, NotNull = False, HasDefaultValue = False, DefaultValue = [],
      DefaultValueInterface = None, IgnoreMigration = False, Unique = False\<rparr>"

definition as_schema :: gorm_schema where
  "as_schema =
     \<lparr>Table = ''as'', Fields = [id_field, sha256_field], PrimaryFieldDBNames = Some [''id'']\<rparr>"






text \<open>
  A transport that rejects the third command, the \<^verbatim>\<open>alter database\<close> statement of a
  fresh database.
\<close>

definition third_command_fails :: conn where
  "third_command_fails =
     fresh_conn\<lparr>faults := (\<lambda>n. if n = 2 then Some (Error ''unavailable'') else None)\<rparr>"

text \<open>
  The model \<open>As\<close> of \<^verbatim>\<open>TestMigrateUniqueFieldFails\<close>, whose \<open>sha256\<close> carries the tag
  \<^verbatim>\<open>unique\<close>, as the base migrator creates it, and a reading of "holds a UNIQUE
  constraint" for concrete runs.
\<close>

definition create_as_unique :: prog where
  "create_as_unique =
     ExecP ''CREATE TABLE \"as\" (\"id\" bigint,\"sha256\" text,PRIMARY KEY (\"id\"),CONSTRAINT \"uni_as_sha256\" UNIQUE (\"sha256\"))''
       (\<lambda>r. Ret r)"

definition unique_clause :: "string \<Rightarrow> bool" where
  "unique_clause s = mentions s '' UNIQUE (''"

text \<open>
  A model whose table is in the schema \<^verbatim>\<open>music\<close>: its \<^verbatim>\<open>TableName\<close> is
  \<^verbatim>\<open>music.singers\<close>, which the PostgreSQL migrator underneath splits at the dot, and
  the catalog has the rows of \<^verbatim>\<open>singers\<close> in that schema.
\<close>

definition dotted_table :: schema_of where
  "dotted_table stmt t =
     (if CHR ''.'' \<in> set t
      then (Some (takeWhile (\<lambda>ch. ch \<noteq> CHR ''.'') t), tl (dropWhile (\<lambda>ch. ch \<noteq> CHR ''.'') t))
      else (None, t))"

definition music_singers_schema :: gorm_schema where
  "music_singers_schema = singers_schema\<lparr>Table := ''music.singers''\<rparr>"

definition music_singers_database :: database where
  "music_singers_database =
     singers_database\<lparr>
       tables := [\<lparr>t_schema = ''music'', t_name = ''singers'', t_type = ''BASE TABLE''\<rparr>],
       columns := map (\<lambda>r. r\<lparr>c_schema := ''music''\<rparr>) (columns singers_database),
       table_constraints := map (\<lambda>r. r\<lparr>tc_schema := ''music''\<rparr>) (table_constraints singers_database),
       constraint_column_usage :=
         map (\<lambda>r. r\<lparr>ccu_schema := ''music''\<rparr>) (constraint_column_usage singers_database)\<rparr>"

definition music_lib :: gorm_lib where
  "music_lib =
     postgres_lib\<lparr>lib_schema_of := dotted_table,
                  lib_CurrentTable := (\<lambda>s. quoted ''music'' @ ''.'' @ quoted ''singers'')\<rparr>"

text \<open>
  The model \<^verbatim>\<open>Concert\<close> of the tests has two foreign keys. gorm renders the constraints
  of one \<^verbatim>\<open>CREATE TABLE\<close> in the order in which it ranges over a Go map, so the base
  migrator issues one of two texts; \<^verbatim>\<open>TestAutoMigrate_CreateDataModel\<close> accepts both. The
  argument is the order that the map gave.
\<close>

definition create_concerts :: "bool \<Rightarrow> prog" where
  "create_concerts venue_first =
     ExecP (''CREATE TABLE \"concerts\" (\"id\" serial,\"created_at\" timestamptz,\"updated_at\" timestamptz,\"deleted_at\" timestamptz,\"name\" text,\"venue_id\" int,\"singer_id\" int,\"start_time\" timestamptz,\"end_time\" timestamptz,PRIMARY KEY (\"id\"),'' @
            (if venue_first
             then ''CONSTRAINT \"fk_venues_concerts\" FOREIGN KEY (\"venue_id\") REFERENCES \"venues\"(\"id\"),CONSTRAINT \"fk_singers_concerts\" FOREIGN KEY (\"singer_id\") REFERENCES \"singers\"(\"id\"))''
             else ''CONSTRAINT \"fk_singers_concerts\" FOREIGN KEY (\"singer_id\") REFERENCES \"singers\"(\"id\"),CONSTRAINT \"fk_venues_concerts\" FOREIGN KEY (\"venue_id\") REFERENCES \"venues\"(\"id\"))''))
       Ret"


section \<open>Frame lemmas of the connection\<close>

lemma AbortBatch_log: "log (snd (AbortBatch c)) = log c @ [Abort]"
  by (simp add: AbortBatch_def issue_def split: option.splits)

lemma AbortBatch_batch:
  "faults c (length (log c)) = None \<Longrightarrow> batch (snd (AbortBatch c)) = None"
  by (simp add: AbortBatch_def issue_def split: option.splits)

lemma AbortBatch_frame:
  "db (snd (AbortBatch c)) = db c"
  "faults (snd (AbortBatch c)) = faults c"
  "sql_conn (snd (AbortBatch c)) = sql_conn c"
  "spanner_conn (snd (AbortBatch c)) = spanner_conn c"
  by (simp_all add: AbortBatch_def issue_def split: option.splits)

lemma ExecDDL_in_batch:
  assumes "batch c = Some b" and "ExecDDL srv sql c = (r, c')"
  shows "db c' = db c \<and> batch c' \<noteq> None \<and> log c' = log c @ [DDL sql] \<and>
         faults c' = faults c \<and> sql_conn c' = sql_conn c \<and> spanner_conn c' = spanner_conn c"
  using assms by (auto simp: ExecDDL_def issue_def split: option.splits)

lemma queryRaw_frame:
  assumes "queryRaw sql f c = (r, c')"
  shows "db c' = db c \<and> batch c' = batch c \<and> log c' = log c @ [Select sql] \<and>
         faults c' = faults c \<and> sql_conn c' = sql_conn c \<and> spanner_conn c' = spanner_conn c"
  using assms by (auto simp: queryRaw_def issue_def split: option.splits)

lemma StartBatchDDL_frame:
  assumes "StartBatchDDL c = (r, c')"
  shows "db c' = db c \<and> log c' = log c @ [StartBatch] \<and>
         faults c' = faults c \<and> sql_conn c' = sql_conn c \<and> spanner_conn c' = spanner_conn c \<and>
         (r = None \<longrightarrow> batch c' = Some []) \<and> (r \<noteq> None \<longrightarrow> batch c' = batch c)"
  using assms by (auto simp: StartBatchDDL_def issue_def split: option.splits)

lemma AbortBatch_result:
  assumes "AbortBatch c = (r, c')"
  shows "db c' = db c \<and> log c' = log c @ [Abort] \<and>
         faults c' = faults c \<and> sql_conn c' = sql_conn c \<and> spanner_conn c' = spanner_conn c \<and>
         (r = None \<longrightarrow> batch c' = None) \<and> (r \<noteq> None \<longrightarrow> batch c' = batch c) \<and>
         r = faults c (length (log c))"
  using assms by (auto simp: AbortBatch_def issue_def split: option.splits)

lemma run_prog_in_batch:
  "batch c \<noteq> None \<Longrightarrow> run_prog srv p c = (r, c') \<Longrightarrow>
     db c' = db c \<and> batch c' \<noteq> None \<and> faults c' = faults c \<and>
     sql_conn c' = sql_conn c \<and> spanner_conn c' = spanner_conn c \<and>
     (\<exists>xs. log c' = log c @ xs \<and> Run \<notin> set xs)"
proof (induction p arbitrary: c r c')
  case (Ret x)
  then show ?case by simp
next
  case (ExecP sql k)
  obtain r1 c1 where e: "ExecDDL srv sql c = (r1, c1)" by (cases "ExecDDL srv sql c")
  from ExecP.prems(1) obtain b where b: "batch c = Some b" by auto
  note 1 = ExecDDL_in_batch[OF b e]
  from 1 have nb: "batch c1 \<noteq> None" by simp
  from ExecP.prems(2) e have "run_prog srv (k r1) c1 = (r, c')" by simp
  from ExecP.IH[OF _ nb this] 1 show ?case by auto
next
  case (QueryP sql k)
  obtain r1 c1 where e: "queryRaw sql (\<lambda>d. d) c = (r1, c1)" by (cases "queryRaw sql (\<lambda>d. d) c")
  note 1 = queryRaw_frame[OF e]
  from 1 QueryP.prems(1) have nb: "batch c1 \<noteq> None" by simp
  from QueryP.prems(2) e have "run_prog srv (k r1) c1 = (r, c')" by simp
  from QueryP.IH[OF _ nb this] 1 show ?case by auto
qed

lemma body_dry_run_in_batch:
  assumes "batch c \<noteq> None"
    and "autoMigrate_body srv True dis base cnt c = (res, c')"
  shows "db c' = db c \<and> faults c' = faults c \<and>
     sql_conn c' = sql_conn c \<and> spanner_conn c' = spanner_conn c \<and>
     (\<exists>xs. log c' = log c @ xs \<and> Run \<notin> set xs)"
proof -
  obtain r1 c1 where e: "(if cnt = 0 then ExecDDL srv set_default_sequence_kind_sql c else (None, c)) = (r1, c1)"
    by (cases "(if cnt = 0 then ExecDDL srv set_default_sequence_kind_sql c else (None, c))")
  from assms(1) obtain b where b: "batch c = Some b" by auto
  have 1: "db c1 = db c \<and> batch c1 \<noteq> None \<and> faults c1 = faults c \<and>
     sql_conn c1 = sql_conn c \<and> spanner_conn c1 = spanner_conn c \<and>
     (\<exists>xs. log c1 = log c @ xs \<and> Run \<notin> set xs)"
  proof (cases "cnt = 0")
    case True
    with e have "ExecDDL srv set_default_sequence_kind_sql c = (r1, c1)" by simp
    from ExecDDL_in_batch[OF b this] show ?thesis by auto
  next
    case False
    with e assms(1) show ?thesis by auto
  qed
  show ?thesis
  proof (cases r1)
    case (Some err)
    with assms(2) e have "c' = c1" by (simp add: autoMigrate_body_def)
    with 1 show ?thesis by simp
  next
    case None
    obtain r2 c2 where p: "run_prog srv base c1 = (r2, c2)" by (cases "run_prog srv base c1")
    from 1 have nb: "batch c1 \<noteq> None" by simp
    note 2 = run_prog_in_batch[OF nb p]
    show ?thesis
    proof (cases r2)
      case (Some err)
      with assms(2) e None p have "c' = c2" by (simp add: autoMigrate_body_def)
      with 1 2 show ?thesis by auto
    next
      case n2: None
      obtain r3 c3 where a: "AbortBatch c2 = (r3, c3)" by (cases "AbortBatch c2")
      note 3 = AbortBatch_result[OF a]
      from assms(2) e None p n2 a have "c' = c2 \<or> c' = c3"
        by (auto simp: autoMigrate_body_def split: if_splits)
      with 1 2 3 show ?thesis by auto
    qed
  qed
qed

lemma autoMigrate_dry_run_frame:
  assumes "autoMigrate srv True dis base c = (res, c')"
  shows "db c' = db c \<and> faults c' = faults c \<and>
     sql_conn c' = sql_conn c \<and> spanner_conn c' = spanner_conn c \<and>
     (\<exists>xs. log c' = log c @ xs \<and> Run \<notin> set xs)"
proof -
  obtain r1 c1 where q: "queryRaw default_sequence_kind_sql count_default_sequence_kind c = (r1, c1)"
    by (cases "queryRaw default_sequence_kind_sql count_default_sequence_kind c")
  note 1 = queryRaw_frame[OF q]
  show ?thesis
  proof (cases r1)
    case (Inl e)
    with assms q have "c' = c1" by (simp add: autoMigrate_def)
    with 1 show ?thesis by simp
  next
    case (Inr cnt)
    obtain r2 c2 where s: "StartBatchDDL c1 = (r2, c2)" by (cases "StartBatchDDL c1")
    note 2 = StartBatchDDL_frame[OF s]
    show ?thesis
    proof (cases r2)
      case (Some e)
      with assms q Inr s have "c' = c2" by (simp add: autoMigrate_def)
      with 1 2 show ?thesis by simp
    next
      case None
      obtain r3 c3 where b: "autoMigrate_body srv True dis base cnt c2 = (r3, c3)"
        by (cases "autoMigrate_body srv True dis base cnt c2")
      from 2 None have nb: "batch c2 \<noteq> None" by simp
      note 3 = body_dry_run_in_batch[OF nb b]
      obtain r4 c4 where a: "AbortBatch c3 = (r4, c4)" by (cases "AbortBatch c3")
      note 4 = AbortBatch_result[OF a]
      from assms q Inr s None b a have "c' = c4" by (simp add: autoMigrate_def)
      with 1 2 3 4 show ?thesis by auto
    qed
  qed
qed


lemma sim_queryRaw:
  assumes "sim c c'" and "queryRaw sql f c = (r, d)" and "queryRaw sql f c' = (r', d')"
  shows "r' = r \<and> sim d d'"
  using assms by (auto simp: sim_def quiet_def observable_def issue_def queryRaw_def)

lemma sim_ExecDDL:
  assumes "sim c c'" and "ExecDDL srv sql c = (r, d)" and "ExecDDL srv sql c' = (r', d')"
  shows "r' = r \<and> sim d d'"
  using assms
  by (auto simp: sim_def quiet_def observable_def issue_def ExecDDL_def split: option.splits prod.splits)

lemma sim_StartBatchDDL:
  assumes "sim c c'" and "StartBatchDDL c = (r, d)" and "StartBatchDDL c' = (r', d')"
  shows "r' = r \<and> sim d d'"
  using assms
  by (auto simp: sim_def quiet_def observable_def issue_def StartBatchDDL_def split: option.splits)

lemma sim_RunBatch:
  assumes "sim c c'" and "RunBatch srv c = (r, d)" and "RunBatch srv c' = (r', d')"
  shows "r' = r \<and> sim d d'"
  using assms
  by (auto simp: sim_def quiet_def observable_def issue_def RunBatch_def split: option.splits prod.splits)

lemma sim_AbortBatch:
  assumes "sim c c'" and "AbortBatch c = (r, d)" and "AbortBatch c' = (r', d')"
  shows "r' = r \<and> sim d d'"
  using assms
  by (auto simp: sim_def quiet_def observable_def issue_def AbortBatch_def split: option.splits)

lemma sim_run_prog:
  "sim c c' \<Longrightarrow> run_prog srv p c = (r, d) \<Longrightarrow> run_prog srv p c' = (r', d') \<Longrightarrow> r' = r \<and> sim d d'"
proof (induction p arbitrary: c c' r d r' d')
  case (Ret x)
  then show ?case by simp
next
  case (ExecP sql k)
  obtain r1 d1 where e: "ExecDDL srv sql c = (r1, d1)" by (cases "ExecDDL srv sql c")
  obtain r1' d1' where e': "ExecDDL srv sql c' = (r1', d1')" by (cases "ExecDDL srv sql c'")
  from sim_ExecDDL[OF ExecP.prems(1) e e'] have r1: "r1' = r1" and s1: "sim d1 d1'" by simp_all
  from ExecP.prems(2) e have p: "run_prog srv (k r1) d1 = (r, d)" by simp
  from ExecP.prems(3) e' r1 have p': "run_prog srv (k r1) d1' = (r', d')" by simp
  from ExecP.IH[OF _ s1 p p'] show ?case by simp
next
  case (QueryP sql k)
  obtain r1 d1 where e: "queryRaw sql (\<lambda>d. d) c = (r1, d1)" by (cases "queryRaw sql (\<lambda>d. d) c")
  obtain r1' d1' where e': "queryRaw sql (\<lambda>d. d) c' = (r1', d1')" by (cases "queryRaw sql (\<lambda>d. d) c'")
  from sim_queryRaw[OF QueryP.prems(1) e e'] have r1: "r1' = r1" and s1: "sim d1 d1'" by simp_all
  from QueryP.prems(2) e have p: "run_prog srv (k r1) d1 = (r, d)" by simp
  from QueryP.prems(3) e' r1 have p': "run_prog srv (k r1) d1' = (r', d')" by simp
  from QueryP.IH[OF _ s1 p p'] show ?case by simp
qed

lemma sim_flags: "sim c c' \<Longrightarrow> sql_conn c = sql_conn c' \<and> spanner_conn c = spanner_conn c' \<and> batch c = batch c'"
  by (simp add: sim_def observable_def)

lemma sim_body:
  assumes s: "sim c c'"
    and b: "autoMigrate_body srv dryRun dis base cnt c = (res, d)"
    and b': "autoMigrate_body srv dryRun dis base cnt c' = (res', d')"
  shows "res = res' \<and> sim d d'"
proof -
  let ?e = "\<lambda>c. if cnt = 0 then ExecDDL srv set_default_sequence_kind_sql c else (None, c)"
  obtain r1 d1 where e1: "?e c = (r1, d1)" by (cases "?e c")
  obtain r1' d1' where e1': "?e c' = (r1', d1')" by (cases "?e c'")
  have "r1' = r1 \<and> sim d1 d1'"
  proof (cases "cnt = 0")
    case True
    with e1 e1' sim_ExecDDL[OF s] show ?thesis by simp
  next
    case False
    with e1 e1' s show ?thesis by auto
  qed
  then have r1: "r1' = r1" and s1: "sim d1 d1'" by simp_all
  obtain r2 d2 where p: "run_prog srv base d1 = (r2, d2)" by (cases "run_prog srv base d1")
  obtain r2' d2' where p': "run_prog srv base d1' = (r2', d2')" by (cases "run_prog srv base d1'")
  from sim_run_prog[OF s1 p p'] have r2: "r2' = r2" and s2: "sim d2 d2'" by simp_all
  obtain r3 d3 where a: "AbortBatch d2 = (r3, d3)" by (cases "AbortBatch d2")
  obtain r3' d3' where a': "AbortBatch d2' = (r3', d3')" by (cases "AbortBatch d2'")
  from sim_AbortBatch[OF s2 a a'] have r3: "r3' = r3" and s3: "sim d3 d3'" by simp_all
  obtain r4 d4 where u: "RunBatch srv d2 = (r4, d4)" by (cases "RunBatch srv d2")
  obtain r4' d4' where u': "RunBatch srv d2' = (r4', d4')" by (cases "RunBatch srv d2'")
  from sim_RunBatch[OF s2 u u'] have r4: "r4' = r4" and s4: "sim d4 d4'" by simp_all
  note f = sim_flags[OF s2]
  have g: "GetBatchedStatements d2 = GetBatchedStatements d2'"
    using f by (simp add: GetBatchedStatements_def)
  show ?thesis
  proof (cases r1)
    case (Some e)
    with b b' e1 e1' r1 s1 show ?thesis by (simp add: autoMigrate_body_def)
  next
    case None
    show ?thesis
    proof (cases r2)
      case (Some e)
      with b b' e1 e1' r1 None p p' r2 s2 show ?thesis by (simp add: autoMigrate_body_def)
    next
      case n2: None
      from b e1 None p n2 a u
      have d: "(res, d) = (if \<not> dryRun \<and> dis then (([], None), d2)
               else if dryRun then
                 (if \<not> sql_conn d2 then (([], Some (Error ''unexpected ConnPool type'')), d2)
                  else if \<not> spanner_conn d2
                    then (([], Some (Error ''dry-run is only supported for Spanner'')), d2)
                  else ((GetBatchedStatements d2, r3), d3))
               else (([], r4), d4))"
        by (auto simp: autoMigrate_body_def split: if_splits)
      from b' e1' r1 None p' r2 n2 a' u' r3 r4
      have d': "(res', d') = (if \<not> dryRun \<and> dis then (([], None), d2')
               else if dryRun then
                 (if \<not> sql_conn d2' then (([], Some (Error ''unexpected ConnPool type'')), d2')
                  else if \<not> spanner_conn d2'
                    then (([], Some (Error ''dry-run is only supported for Spanner'')), d2')
                  else ((GetBatchedStatements d2', r3), d3'))
               else (([], r4), d4'))"
        by (auto simp: autoMigrate_body_def split: if_splits)
      from d d' f g s2 s3 s4 show ?thesis
        by (auto split: if_splits)
    qed
  qed
qed

lemma sim_autoMigrate:
  assumes s: "sim c c'"
    and m: "autoMigrate srv dryRun dis base c = (res, d)"
    and m': "autoMigrate srv dryRun dis base c' = (res', d')"
  shows "res = res' \<and> sim d d'"
proof -
  let ?q = "queryRaw default_sequence_kind_sql count_default_sequence_kind"
  obtain r1 d1 where q: "?q c = (r1, d1)" by (cases "?q c")
  obtain r1' d1' where q': "?q c' = (r1', d1')" by (cases "?q c'")
  from sim_queryRaw[OF s q q'] have r1: "r1' = r1" and s1: "sim d1 d1'" by simp_all
  show ?thesis
  proof (cases r1)
    case (Inl e)
    with m m' q q' r1 s1 show ?thesis by (simp add: autoMigrate_def)
  next
    case (Inr cnt)
    show ?thesis
    proof (cases "dryRun \<or> \<not> dis")
      case False
      with m q Inr have b: "autoMigrate_body srv dryRun dis base cnt d1 = (res, d)"
        by (simp add: autoMigrate_def)
      from False m' q' r1 Inr have b': "autoMigrate_body srv dryRun dis base cnt d1' = (res', d')"
        by (simp add: autoMigrate_def)
      from sim_body[OF s1 b b'] show ?thesis .
    next
      case True
      obtain r2 d2 where t: "StartBatchDDL d1 = (r2, d2)" by (cases "StartBatchDDL d1")
      obtain r2' d2' where t': "StartBatchDDL d1' = (r2', d2')" by (cases "StartBatchDDL d1'")
      from sim_StartBatchDDL[OF s1 t t'] have r2: "r2' = r2" and s2: "sim d2 d2'" by simp_all
      show ?thesis
      proof (cases r2)
        case (Some e)
        with True m m' q q' r1 Inr t t' r2 s2 show ?thesis by (simp add: autoMigrate_def)
      next
        case None
        obtain r3 d3 where b: "autoMigrate_body srv dryRun dis base cnt d2 = (r3, d3)"
          by (cases "autoMigrate_body srv dryRun dis base cnt d2")
        obtain r3' d3' where b': "autoMigrate_body srv dryRun dis base cnt d2' = (r3', d3')"
          by (cases "autoMigrate_body srv dryRun dis base cnt d2'")
        from sim_body[OF s2 b b'] have r3: "r3' = r3" and s3: "sim d3 d3'" by simp_all
        from True m q Inr t None b have d: "res = r3 \<and> d = snd (AbortBatch d3)"
          by (auto simp: autoMigrate_def)
        from True m' q' r1 Inr t' r2 None b' r3 have d': "res' = r3 \<and> d' = snd (AbortBatch d3')"
          by (auto simp: autoMigrate_def)
        from d d' sim_AbortBatch[OF s3, of "fst (AbortBatch d3)" "snd (AbortBatch d3)" "fst (AbortBatch d3')" "snd (AbortBatch d3')"] show ?thesis by simp
      qed
    qed
  qed
qed


lemma StartBatchDDL_ok: "StartBatchDDL c = (None, c') \<Longrightarrow> batch c = None"
  by (auto simp: StartBatchDDL_def issue_def split: option.splits)

lemma autoMigrate_dry_run_batch:
  assumes qu: "quiet c" and m: "autoMigrate srv True dis base c = (res, c')"
  shows "batch c' = batch c"
proof -
  obtain r1 c1 where q: "queryRaw default_sequence_kind_sql count_default_sequence_kind c = (r1, c1)"
    by (cases "queryRaw default_sequence_kind_sql count_default_sequence_kind c")
  note 1 = queryRaw_frame[OF q]
  show ?thesis
  proof (cases r1)
    case (Inl e)
    with m q have "c' = c1" by (simp add: autoMigrate_def)
    with 1 show ?thesis by simp
  next
    case (Inr cnt)
    obtain r2 c2 where s: "StartBatchDDL c1 = (r2, c2)" by (cases "StartBatchDDL c1")
    note 2 = StartBatchDDL_frame[OF s]
    show ?thesis
    proof (cases r2)
      case (Some e)
      with m q Inr s have "c' = c2" by (simp add: autoMigrate_def)
      with 1 2 Some show ?thesis by simp
    next
      case None
      obtain r3 c3 where b: "autoMigrate_body srv True dis base cnt c2 = (r3, c3)"
        by (cases "autoMigrate_body srv True dis base cnt c2")
      from 2 None have nb: "batch c2 \<noteq> None" by simp
      note 3 = body_dry_run_in_batch[OF nb b]
      obtain r4 c4 where a: "AbortBatch c3 = (r4, c4)" by (cases "AbortBatch c3")
      note 4 = AbortBatch_result[OF a]
      from 1 2 3 qu have "faults c3 = faults c" by simp
      with qu 4 have "r4 = None" by (simp add: quiet_def)
      with 4 have "batch c4 = None" by simp
      moreover from s None have "batch c1 = None" by (simp add: StartBatchDDL_ok)
      moreover from m q Inr s None b a have "c' = c4" by (simp add: autoMigrate_def)
      ultimately show ?thesis using 1 by simp
    qed
  qed
qed

section \<open>What the catalog queries read\<close>

lemma concat_map_filter_skip:
  "(\<And>x. x \<in> set xs \<Longrightarrow> P x \<Longrightarrow> \<not> Q x \<Longrightarrow> f x = []) \<Longrightarrow>
     concat (map f (filter P (filter Q xs))) = concat (map f (filter P xs))"
  by (induction xs) auto

lemma filter_filter_implied:
  "(\<And>x. x \<in> set xs \<Longrightarrow> P x \<Longrightarrow> Q x) \<Longrightarrow> filter P (filter Q xs) = filter P xs"
  by (induction xs) auto

lemma table_columns_part: "table_columns sch tbl (table_part sch tbl d) = table_columns sch tbl d"
  by (auto simp: table_columns_def table_part_def intro!: filter_cong)


lemma constraint_rows_part:
  "constraint_rows sch tbl (table_part sch tbl d) = constraint_rows sch tbl d"
proof -
  define G where "G cols tc ccu =
      map (\<lambda>c. (c_name c, tc_name tc, tc_type tc))
          (filter (\<lambda>c. c_schema c = tc_schema tc \<and> tc_table tc = c_table c \<and>
                        ccu_column ccu = c_name c \<and>
                        c_schema c = sch \<and> c_table c = tbl \<and> c_name c \<noteq> generated_id) cols)"
    for cols :: "column_row list" and tc :: tc_row and ccu :: ccu_row
  define F where "F cols ccus tc =
      concat (map (G cols tc)
                  (filter (\<lambda>ccu. tc_schema tc = ccu_schema ccu \<and> tc_catalog tc = ccu_catalog ccu \<and>
                                  tc_table tc = ccu_table ccu \<and> tc_name tc = ccu_name ccu) ccus))"
    for cols :: "column_row list" and ccus :: "ccu_row list" and tc :: tc_row
  define J where "J cols ccus tcs =
      concat (map (F cols ccus)
                  (filter (\<lambda>tc. tc_type tc = ''PRIMARY KEY'' \<or> tc_type tc = ''UNIQUE'') tcs))"
    for cols :: "column_row list" and ccus :: "ccu_row list" and tcs :: "tc_row list"
  let ?tcs = "table_constraints d"
  let ?A = "\<lambda>r. c_schema r = sch \<and> c_table r = tbl"
  let ?At = "\<lambda>r. tc_schema r = sch \<and> tc_table r = tbl"
  let ?Au = "\<lambda>u. ccu_schema u = sch \<and> ccu_table u = tbl \<and>
                  list_ex (\<lambda>r. tc_schema r = sch \<and> tc_table r = tbl \<and>
                                tc_catalog r = ccu_catalog u \<and> tc_name r = ccu_name u) ?tcs"
  have cr: "\<And>d. constraint_rows sch tbl d
              = J (columns d) (constraint_column_usage d) (table_constraints d)"
    by (simp add: constraint_rows_def J_def F_def[abs_def] G_def[abs_def])
  have G0: "\<And>cols tc ccu. G (filter ?A cols) tc ccu = G cols tc ccu"
    unfolding G_def by (rule arg_cong[where f = "map _"], rule filter_filter_implied) auto
  have G: "\<And>cols tc. G (filter ?A cols) tc = G cols tc"
    by (rule ext) (rule G0)
  have Gnil: "\<And>cols tc ccu. \<not> ?At tc \<Longrightarrow> G cols tc ccu = []"
    unfolding G_def by (auto simp: filter_empty_conv)
  have F1: "\<And>cols ccus. F (filter ?A cols) ccus = F cols ccus"
    by (rule ext) (simp only: F_def G)
  have F2: "F cols (filter ?Au ccus) tc = F cols ccus tc" if m: "tc \<in> set ?tcs"
    for cols :: "column_row list" and ccus :: "ccu_row list" and tc :: tc_row
    unfolding F_def
  proof (rule concat_map_filter_skip)
    fix ccu :: ccu_row
    assume j: "tc_schema tc = ccu_schema ccu \<and> tc_catalog tc = ccu_catalog ccu \<and>
               tc_table tc = ccu_table ccu \<and> tc_name tc = ccu_name ccu" and n: "\<not> ?Au ccu"
    have "\<not> ?At tc"
    proof
      assume t: "?At tc"
      with j m have "?Au ccu" by (auto simp: list_ex_iff)
      with n show False by simp
    qed
    then show "G cols tc ccu = []" by (rule Gnil)
  qed
  have Fnil: "\<And>cols ccus tc. \<not> ?At tc \<Longrightarrow> F cols ccus tc = []"
  proof -
    fix cols :: "column_row list" and ccus :: "ccu_row list" and tc :: tc_row
    assume n: "\<not> ?At tc"
    have "\<And>ccu. G cols tc ccu = []" by (rule Gnil[OF n])
    then show "F cols ccus tc = []" unfolding F_def by simp
  qed
  have J3: "\<And>cols ccus tcs. J cols ccus (filter ?At tcs) = J cols ccus tcs"
    unfolding J_def by (rule concat_map_filter_skip) (rule Fnil)
  have J2: "J (filter ?A cols) (filter ?Au ccus) (filter ?At ?tcs) = J cols ccus (filter ?At ?tcs)"
    for cols :: "column_row list" and ccus :: "ccu_row list"
    unfolding J_def
  proof (rule arg_cong[where f = concat], rule map_cong[OF refl])
    fix tc :: tc_row
    assume "tc \<in> set (filter (\<lambda>tc. tc_type tc = ''PRIMARY KEY'' \<or> tc_type tc = ''UNIQUE'')
                              (filter ?At ?tcs))"
    then have "tc \<in> set ?tcs" by simp
    from F2[OF this] show "F (filter ?A cols) (filter ?Au ccus) tc = F cols ccus tc"
      by (simp only: F1)
  qed
  have "constraint_rows sch tbl (table_part sch tbl d)
          = J (filter ?A (columns d)) (filter ?Au (constraint_column_usage d))
              (filter ?At (table_constraints d))"
    by (simp add: cr table_part_def)
  also have "\<dots> = J (columns d) (constraint_column_usage d) (filter ?At (table_constraints d))"
    by (rule J2)
  also have "\<dots> = J (columns d) (constraint_column_usage d) (table_constraints d)"
    by (rule J3)
  finally show ?thesis by (simp add: cr)
qed

lemma unique_constraint_names_part:
  "unique_constraint_names sch tbl (table_part sch tbl d) = unique_constraint_names sch tbl d"
  by (simp add: unique_constraint_names_def constraint_rows_part)

lemma spanner_type_rows_part:
  "spanner_type_rows sch tbl (table_part sch tbl d) = spanner_type_rows sch tbl d"
  by (simp add: spanner_type_rows_def table_columns_part)





section \<open>Order in lists and in the log\<close>



















section \<open>A batch that the service refuses\<close>

lemma RunBatch_rejected:
  assumes "quiet c" and "batch c = Some b" and "list_ex p b"
  shows "RunBatch (rejecting_unique p srv) c
           = (Some unique_constraint_not_supported, c\<lparr>log := log c @ [Run], batch := None, db := db c\<rparr>)"
  using assms by (simp add: RunBatch_def issue_def quiet_def rejecting_unique_def)

lemma autoMigrate_rejected:
  assumes qu: "quiet c"
    and dry: "fst (fst (autoMigrate srv True False base c)) = stmts"
    and uc: "list_ex p stmts"
    and srv: "srv = rejecting_unique p inner"
  shows "fst (autoMigrate srv False False base c) = ([], Some unique_constraint_not_supported) \<and>
         sim c (snd (autoMigrate srv False False base c))"
proof -
  from uc have ne: "stmts \<noteq> []" by auto
  obtain r1 c1 where q: "queryRaw default_sequence_kind_sql count_default_sequence_kind c = (r1, c1)"
    by (cases "queryRaw default_sequence_kind_sql count_default_sequence_kind c")
  note f1 = queryRaw_frame[OF q]
  from q qu obtain cnt where r1: "r1 = Inr cnt"
    by (auto simp: queryRaw_def issue_def quiet_def split: option.splits)
  obtain r2 c2 where s: "StartBatchDDL c1 = (r2, c2)" by (cases "StartBatchDDL c1")
  note f2 = StartBatchDDL_frame[OF s]
  have r2: "r2 = None"
  proof (cases r2)
    case (Some e)
    with dry q r1 s have "stmts = []" by (simp add: autoMigrate_def)
    with ne show ?thesis by simp
  qed simp
  from s r2 have b1: "batch c1 = None" by (simp add: StartBatchDDL_ok)
  with f1 have b0: "batch c = None" by simp
  from f2 r2 have b2: "batch c2 = Some []" by simp
  let ?e = "if cnt = 0 then ExecDDL srv set_default_sequence_kind_sql c2 else (None, c2)"
  obtain r3 c3 where e: "?e = (r3, c3)" by (cases ?e)
  from f1 f2 qu have q2: "quiet c2" by (simp add: quiet_def)
  have f3: "db c3 = db c2 \<and> batch c3 \<noteq> None \<and> faults c3 = faults c2 \<and>
     sql_conn c3 = sql_conn c2 \<and> spanner_conn c3 = spanner_conn c2 \<and> r3 = None"
  proof (cases "cnt = 0")
    case True
    with e have x: "ExecDDL srv set_default_sequence_kind_sql c2 = (r3, c3)" by simp
    from ExecDDL_in_batch[OF b2 x] have "db c3 = db c2 \<and> batch c3 \<noteq> None \<and> faults c3 = faults c2 \<and>
     sql_conn c3 = sql_conn c2 \<and> spanner_conn c3 = spanner_conn c2" by simp
    moreover from x b2 q2 have "r3 = None"
      by (auto simp: ExecDDL_def issue_def quiet_def split: option.splits)
    ultimately show ?thesis by simp
  next
    case False
    with e b2 show ?thesis by auto
  qed
  obtain r4 c4 where p: "run_prog srv base c3 = (r4, c4)" by (cases "run_prog srv base c3")
  from f3 have nb3: "batch c3 \<noteq> None" by simp
  note f4 = run_prog_in_batch[OF nb3 p]
  from f4 f3 q2 have q4: "quiet c4" by (simp add: quiet_def)
  obtain r5 c5 where a: "AbortBatch c4 = (r5, c5)" by (cases "AbortBatch c4")
  have bd: "autoMigrate_body srv True False base cnt c2 =
              (case r4 of Some err \<Rightarrow> (([], Some err), c4)
               | None \<Rightarrow> if \<not> sql_conn c4 then (([], Some (Error ''unexpected ConnPool type'')), c4)
                  else if \<not> spanner_conn c4
                    then (([], Some (Error ''dry-run is only supported for Spanner'')), c4)
                  else ((GetBatchedStatements c4, r5), c5))"
    using e f3 p a by (simp add: autoMigrate_body_def split: option.splits)
  have dd: "fst (fst (autoMigrate srv True False base c))
              = fst (fst (autoMigrate_body srv True False base cnt c2))"
    using q r1 s r2 by (simp add: autoMigrate_def split: prod.splits)
  from dd dry bd ne have g: "r4 = None \<and> GetBatchedStatements c4 = stmts"
    by (auto split: option.splits if_splits)
  with ne have b4: "batch c4 = Some stmts"
    by (auto simp: GetBatchedStatements_def split: option.splits)
  from RunBatch_rejected[OF q4 b4 uc, of inner] srv
  have rb: "RunBatch srv c4 = (Some unique_constraint_not_supported,
              c4\<lparr>log := log c4 @ [Run], batch := None, db := db c4\<rparr>)" by simp
  let ?c6 = "c4\<lparr>log := log c4 @ [Run], batch := None, db := db c4\<rparr>"
  have br: "autoMigrate_body srv False False base cnt c2
              = (([], Some unique_constraint_not_supported), ?c6)"
    using e f3 p g rb by (simp add: autoMigrate_body_def)
  have res: "autoMigrate srv False False base c
               = (([], Some unique_constraint_not_supported), snd (AbortBatch ?c6))"
    using q r1 s r2 br by (simp add: autoMigrate_def)
  have q6: "quiet ?c6" using q4 by (simp add: quiet_def)
  have "observable (snd (AbortBatch ?c6)) = observable c"
    using q6 f1 f2 f3 f4 b0
    by (simp add: AbortBatch_def issue_def quiet_def observable_def)
  moreover have "quiet (snd (AbortBatch ?c6))"
    using q6 by (simp add: quiet_def AbortBatch_frame)
  ultimately show ?thesis using res qu by (simp add: sim_def)
qed

section \<open>The orderer places parents first\<close>




section \<open>The batch is aborted on every exit\<close>

text \<open>
  C5. Whenever \<^verbatim>\<open>autoMigrate\<close> has opened a DDL batch (the count query answered, batching
  is on or this is a dry run, and \<^verbatim>\<open>START BATCH DDL\<close> succeeded), then whatever the
  function returns, a result or any of its errors, the last command it issued on the
  connection is \<^verbatim>\<open>ABORT BATCH\<close>, and unless the transport rejected that very
  command no batch is open when the function returns.
\<close>

theorem autoMigrate_aborts_opened_batch:
  assumes "queryRaw default_sequence_kind_sql count_default_sequence_kind c = (Inr cnt, c1)"
    and "dryRun \<or> \<not> disableAutoBatching"
    and "StartBatchDDL c1 = (None, c2)"
    and "autoMigrate srv dryRun disableAutoBatching base c = (res, c')"
  shows "log c' \<noteq> [] \<and> last (log c') = Abort \<and>
         (faults c' (length (log c') - 1) = None \<longrightarrow> batch c' = None)"
proof -
  obtain res3 c3 where b: "autoMigrate_body srv dryRun disableAutoBatching base cnt c2 = (res3, c3)"
    by (cases "autoMigrate_body srv dryRun disableAutoBatching base cnt c2")
  from assms b have c': "c' = snd (AbortBatch c3)"
    by (auto simp: autoMigrate_def)
  show ?thesis
    unfolding c' by (simp add: AbortBatch_log AbortBatch_frame AbortBatch_batch)
qed

theorem autoMigrate_aborts_opened_batch_witness:
  "fst (autoMigrate accepting_service False False (Ret None) third_command_fails)
     = ([], Some (Error ''unavailable'')) \<and>
   log (snd (autoMigrate accepting_service False False (Ret None) third_command_fails))
     = [Select default_sequence_kind_sql, StartBatch, DDL set_default_sequence_kind_sql, Abort] \<and>
   last (log (snd (autoMigrate accepting_service False False (Ret None) third_command_fails))) = Abort \<and>
   batch (snd (autoMigrate accepting_service False False (Ret None) third_command_fails)) = None"
proof -
  let ?c = third_command_fails
  let ?c1 = "?c\<lparr>log := [Select default_sequence_kind_sql]\<rparr>"
  let ?c2 = "?c\<lparr>log := [Select default_sequence_kind_sql, StartBatch], batch := Some []\<rparr>"
  have q: "queryRaw default_sequence_kind_sql count_default_sequence_kind ?c = (Inr 0, ?c1)"
    by (simp add: queryRaw_def issue_def third_command_fails_def fresh_conn_def
        count_default_sequence_kind_def empty_database_def)
  have s: "StartBatchDDL ?c1 = (None, ?c2)"
    by (simp add: StartBatchDDL_def issue_def third_command_fails_def fresh_conn_def)
  have m: "autoMigrate accepting_service False False (Ret None) ?c
             = (([], Some (Error ''unavailable'')),
                ?c\<lparr>log := [Select default_sequence_kind_sql, StartBatch,
                              DDL set_default_sequence_kind_sql, Abort],
                    batch := None\<rparr>)"
    by (simp add: autoMigrate_def autoMigrate_body_def queryRaw_def StartBatchDDL_def
        ExecDDL_def AbortBatch_def issue_def third_command_fails_def fresh_conn_def
        count_default_sequence_kind_def empty_database_def)
  have b: "False \<or> \<not> False" by simp
  from autoMigrate_aborts_opened_batch[OF q b s m] m show ?thesis
    by simp
qed

section \<open>The dry run changes nothing\<close>

text \<open>
  The claim C4 as it is written fails for a model with two foreign keys: two dry runs in
  succession on an unchanged catalog, the base migrator rendering the constraints of
  \<^verbatim>\<open>concerts\<close> in one order in the first and in the other order in the second, return
  different statement lists.
\<close>

theorem AutoMigrateDryRun_twice_counterexample:
  "fst (AutoMigrateDryRun accepting_service False (create_concerts True) fresh_conn)
     = ([set_default_sequence_kind_sql,
         ''CREATE TABLE \"concerts\" (\"id\" serial,\"created_at\" timestamptz,\"updated_at\" timestamptz,\"deleted_at\" timestamptz,\"name\" text,\"venue_id\" int,\"singer_id\" int,\"start_time\" timestamptz,\"end_time\" timestamptz,PRIMARY KEY (\"id\"),CONSTRAINT \"fk_venues_concerts\" FOREIGN KEY (\"venue_id\") REFERENCES \"venues\"(\"id\"),CONSTRAINT \"fk_singers_concerts\" FOREIGN KEY (\"singer_id\") REFERENCES \"singers\"(\"id\"))''],
        None) \<and>
   fst (AutoMigrateDryRun accepting_service False (create_concerts False)
          (snd (AutoMigrateDryRun accepting_service False (create_concerts True) fresh_conn)))
     = ([set_default_sequence_kind_sql,
         ''CREATE TABLE \"concerts\" (\"id\" serial,\"created_at\" timestamptz,\"updated_at\" timestamptz,\"deleted_at\" timestamptz,\"name\" text,\"venue_id\" int,\"singer_id\" int,\"start_time\" timestamptz,\"end_time\" timestamptz,PRIMARY KEY (\"id\"),CONSTRAINT \"fk_singers_concerts\" FOREIGN KEY (\"singer_id\") REFERENCES \"singers\"(\"id\"),CONSTRAINT \"fk_venues_concerts\" FOREIGN KEY (\"venue_id\") REFERENCES \"venues\"(\"id\"))''],
        None) \<and>
   fst (fst (AutoMigrateDryRun accepting_service False (create_concerts False)
          (snd (AutoMigrateDryRun accepting_service False (create_concerts True) fresh_conn))))
     \<noteq> fst (fst (AutoMigrateDryRun accepting_service False (create_concerts True) fresh_conn))"
  by (simp add: AutoMigrateDryRun_def autoMigrate_def autoMigrate_body_def queryRaw_def
        StartBatchDDL_def ExecDDL_def AbortBatch_def issue_def fresh_conn_def create_concerts_def
        count_default_sequence_kind_def empty_database_def GetBatchedStatements_def)

text \<open>
  C4, amended. Two dry runs in succession, the second starting from the state the first
  one left: neither changes the catalog, and no \<^verbatim>\<open>RUN BATCH\<close> is issued from the start
  of the first to the end of the second, whatever the transport and the base migrator do.
  When the transport rejects nothing and the base migrator renders the same in both runs,
  the two runs return the same statement list and the same error.
\<close>

theorem AutoMigrateDryRun_twice:
  assumes "AutoMigrateDryRun srv dis base1 c = ((stmts1, err1), c1)"
    and "AutoMigrateDryRun srv dis base2 c1 = ((stmts2, err2), c2)"
  shows "db c1 = db c \<and> db c2 = db c \<and> Run \<notin> set (issued c c2) \<and>
         (quiet c \<and> base2 = base1 \<longrightarrow> stmts2 = stmts1 \<and> err2 = err1)"
proof -
  from assms(1) have m1: "autoMigrate srv True dis base1 c = ((stmts1, err1), c1)"
    by (simp add: AutoMigrateDryRun_def)
  from assms(2) have m2: "autoMigrate srv True dis base2 c1 = ((stmts2, err2), c2)"
    by (simp add: AutoMigrateDryRun_def)
  note f1 = autoMigrate_dry_run_frame[OF m1]
  note f2 = autoMigrate_dry_run_frame[OF m2]
  from f1 f2 obtain xs ys where "log c1 = log c @ xs" "Run \<notin> set xs"
      "log c2 = log c1 @ ys" "Run \<notin> set ys" by blast
  then have r: "Run \<notin> set (issued c c2)" by (simp add: issued_def)
  have "stmts2 = stmts1 \<and> err2 = err1" if qu: "quiet c" and same: "base2 = base1"
  proof -
    from autoMigrate_dry_run_batch[OF qu m1] have b1: "batch c1 = batch c" .
    from f1 qu have q1: "quiet c1" by (simp add: quiet_def)
    from f1 b1 qu q1 have s: "sim c c1" by (simp add: sim_def observable_def)
    from m2 same have m2': "autoMigrate srv True dis base1 c1 = ((stmts2, err2), c2)" by simp
    from sim_autoMigrate[OF s m1 m2'] show ?thesis by simp
  qed
  with r f1 f2 show ?thesis by simp
qed

theorem AutoMigrateDryRun_twice_witness:
  "fst (AutoMigrateDryRun accepting_service False create_singers fresh_conn)
     = ([set_default_sequence_kind_sql,
         ''CREATE TABLE \"singers\" (\"id\" serial,PRIMARY KEY (\"id\"))''], None) \<and>
   fst (AutoMigrateDryRun accepting_service False create_singers
          (snd (AutoMigrateDryRun accepting_service False create_singers fresh_conn)))
     = ([set_default_sequence_kind_sql,
         ''CREATE TABLE \"singers\" (\"id\" serial,PRIMARY KEY (\"id\"))''], None) \<and>
   db (snd (AutoMigrateDryRun accepting_service False create_singers
          (snd (AutoMigrateDryRun accepting_service False create_singers fresh_conn))))
     = empty_database \<and>
   Run \<notin> set (issued fresh_conn (snd (AutoMigrateDryRun accepting_service False create_singers
          (snd (AutoMigrateDryRun accepting_service False create_singers fresh_conn)))))"
proof -
  let ?r1 = "AutoMigrateDryRun accepting_service False create_singers fresh_conn"
  let ?r2 = "AutoMigrateDryRun accepting_service False create_singers (snd ?r1)"
  have q: "quiet fresh_conn" by (simp add: quiet_def fresh_conn_def)
  have e1: "?r1 = ((fst (fst ?r1), snd (fst ?r1)), snd ?r1)" by simp
  have e2: "?r2 = ((fst (fst ?r2), snd (fst ?r2)), snd ?r2)" by simp
  have v: "fst ?r1 = ([set_default_sequence_kind_sql,
         ''CREATE TABLE \"singers\" (\"id\" serial,PRIMARY KEY (\"id\"))''], None)"
    by (simp add: AutoMigrateDryRun_def autoMigrate_def autoMigrate_body_def queryRaw_def
        StartBatchDDL_def ExecDDL_def AbortBatch_def issue_def fresh_conn_def create_singers_def
        count_default_sequence_kind_def empty_database_def GetBatchedStatements_def)
  have d: "db fresh_conn = empty_database" by (simp add: fresh_conn_def)
  from AutoMigrateDryRun_twice[OF e1 e2] q v d show ?thesis
    by (simp add: prod_eq_iff)
qed

section \<open>What HasTable tells its caller\<close>

text \<open>
  The claim C8 as it is written fails: \<^verbatim>\<open>HasTable\<close> returns a boolean and nothing
  else. With the table in the catalog and the query rejected it answers false, the
  answer it gives for a missing table on a healthy connection.
\<close>

theorem HasTable_swallows_query_error_counterexample:
  "faults first_command_fails (length (log first_command_fails)) = Some (Error ''connection closed'') \<and>
   count_tables ''public'' ''singers'' ''BASE TABLE'' (db first_command_fails) = 1 \<and>
   fst (HasTable plain_table (TableName ''singers'') first_command_fails) = False \<and>
   count_tables ''public'' ''singers'' ''BASE TABLE'' (db fresh_conn) = 0 \<and>
   fst (HasTable plain_table (TableName ''singers'') fresh_conn) = False"
  by (simp add: HasTable_def RunWithValue_def parse_value_def CurrentSchema_def plain_table_def
      queryRaw_def issue_def first_command_fails_def fresh_conn_def singers_database_def
      empty_database_def count_tables_def)

text \<open>
  C8, amended. \<^verbatim>\<open>HasTable\<close> answers true exactly when its query was not rejected and
  counted a base table of that name in the schema; a missing table and a failed query
  both give false. \<^verbatim>\<open>GetTables\<close>, which returns an error, returns the query's error as
  it is, with an empty list.
\<close>

theorem HasTable_answers:
  assumes "parse_value v = Inr stmt"
    and "CurrentSchema pg stmt (Stmt_Table stmt) = (s, t)"
  shows "fst (HasTable pg v c) =
           (faults c (length (log c)) = None \<and> 0 < count_tables s t ''BASE TABLE'' (db c)) \<and>
         snd (fst (GetTables pg st c)) = faults c (length (log c)) \<and>
         fst (fst (GetTables pg st c)) =
           (if faults c (length (log c)) = None
            then select_table_names (fst (CurrentSchema pg st [])) ''BASE TABLE'' (db c)
            else [])"
  using assms
  by (auto simp: HasTable_def GetTables_def RunWithValue_def queryRaw_def issue_def
      split: prod.splits option.splits sum.splits)

theorem HasTable_answers_witness:
  "fst (HasTable plain_table (TableName ''singers'') (fresh_conn\<lparr>db := singers_database\<rparr>)) = True \<and>
   fst (GetTables plain_table update_by_table_name first_command_fails)
     = ([], Some (Error ''connection closed'')) \<and>
   fst (GetTables plain_table update_by_table_name (fresh_conn\<lparr>db := singers_database\<rparr>))
     = ([''singers''], None)"
proof -
  have p: "parse_value (TableName ''singers'') = Inr \<lparr>Stmt_Table = ''singers'', Schema = None, Omits = []\<rparr>"
    by (simp add: parse_value_def)
  have s: "CurrentSchema plain_table \<lparr>Stmt_Table = ''singers'', Schema = None, Omits = []\<rparr>
             (Stmt_Table \<lparr>Stmt_Table = ''singers'', Schema = None, Omits = []\<rparr>) = (''public'', ''singers'')"
    by (simp add: CurrentSchema_def plain_table_def)
  have c: "count_tables ''public'' ''singers'' ''BASE TABLE'' singers_database = 1"
    by (simp add: count_tables_def singers_database_def empty_database_def)
  have n: "select_table_names ''public'' ''BASE TABLE'' singers_database = [''singers'']"
    by (simp add: select_table_names_def singers_database_def empty_database_def)
  from HasTable_answers[OF p s, of "fresh_conn\<lparr>db := singers_database\<rparr>" update_by_table_name]
       HasTable_answers[OF p s, of first_command_fails update_by_table_name] c n
  show ?thesis
    by (simp add: fresh_conn_def first_command_fails_def prod_eq_iff CurrentSchema_def plain_table_def)
qed

section \<open>Primary keys and the omit list of an update\<close>

text \<open>
  The claim C10 as it is written fails for a statement without a parsed schema (an
  update by table name): the guard of \<^verbatim>\<open>BeforeUpdate\<close> leaves it as it is, so the
  primary-key column \<^verbatim>\<open>id\<close> of its table is not in the omit list.
\<close>

theorem BeforeUpdate_without_schema_counterexample:
  "primary_key_columns singers_database (Stmt_Table update_by_table_name) = [''id''] \<and>
   BeforeUpdate (Some update_by_table_name) = Some update_by_table_name \<and>
   Omits update_by_table_name = []"
  by (simp add: primary_key_columns_def singers_database_def empty_database_def
      update_by_table_name_def BeforeUpdate_def)

text \<open>
  C10, amended. A statement without a parsed schema, or whose schema has no primary-key
  column names, is left as it is, and so is a nil statement. For a statement with a
  parsed schema whose primary-key column names are set, \<^verbatim>\<open>BeforeUpdate\<close> makes the omit
  list the previous omits followed by those names, so each of them is omitted; unless
  that list is one single name with a comma in it, which gorm's \<^verbatim>\<open>Omit\<close> splits at the
  characters that cannot be part of a name, and then the omit list is the pieces.
\<close>

theorem BeforeUpdate_omits_primary_keys:
  "BeforeUpdate None = None \<and>
   (Schema s = None \<longrightarrow> BeforeUpdate (Some s) = Some s) \<and>
   (\<forall>sch. Schema s = Some sch \<and> PrimaryFieldDBNames sch = None \<longrightarrow>
          BeforeUpdate (Some s) = Some s) \<and>
   (\<forall>sch pks. Schema s = Some sch \<and> PrimaryFieldDBNames sch = Some pks \<and>
              \<not> one_name_with_comma (Omits s @ pks) \<longrightarrow>
          BeforeUpdate (Some s) = Some (s\<lparr>Omits := Omits s @ pks\<rparr>) \<and>
          set pks \<subseteq> set (Omits (s\<lparr>Omits := Omits s @ pks\<rparr>))) \<and>
   (\<forall>sch pks. Schema s = Some sch \<and> PrimaryFieldDBNames sch = Some pks \<and>
              one_name_with_comma (Omits s @ pks) \<longrightarrow>
          BeforeUpdate (Some s)
            = Some (s\<lparr>Omits := FieldsFunc (hd (Omits s @ pks)) IsValidDBNameChar\<rparr>))"
proof -
  have a: "Omit cols s = s\<lparr>Omits := cols\<rparr>" if "\<not> one_name_with_comma cols" for cols
    using that by (auto simp: Omit_def one_name_with_comma_def split: list.splits)
  have b: "Omit cols s = s\<lparr>Omits := FieldsFunc (hd cols) IsValidDBNameChar\<rparr>"
    if "one_name_with_comma cols" for cols
    using that by (auto simp: Omit_def one_name_with_comma_def split: list.splits)
  show ?thesis using a b by (auto simp: BeforeUpdate_def)
qed

theorem BeforeUpdate_omits_primary_keys_witness:
  "BeforeUpdate (Some update_singer) = Some (update_singer\<lparr>Omits := [''created_at'', ''id'']\<rparr>) \<and>
   ''id'' \<in> set (Omits (update_singer\<lparr>Omits := [''created_at'', ''id'']\<rparr>)) \<and>
   BeforeUpdate (Some update_by_table_name) = Some update_by_table_name"
proof -
  have 1: "Schema update_singer = Some singers_schema" by (simp add: update_singer_def)
  have 2: "PrimaryFieldDBNames singers_schema = Some [''id'']" by (simp add: singers_schema_def)
  have 3: "\<not> one_name_with_comma (Omits update_singer @ [''id''])"
    by (simp add: update_singer_def one_name_with_comma_def)
  have 4: "Schema update_by_table_name = None" by (simp add: update_by_table_name_def)
  from BeforeUpdate_omits_primary_keys[of update_singer] BeforeUpdate_omits_primary_keys[of update_by_table_name]
    1 2 3 4 show ?thesis
    by (simp add: update_singer_def)
qed

section \<open>Generated columns\<close>

text \<open>
  Where the lookup of \<^verbatim>\<open>isColumnGenerated\<close> finds the column, it is left alone. Let the
  value parse to a statement with a schema, let the catalog hold, in the
  schema \<^verbatim>\<open>public\<close>, a row for the statement's table and the field's column that
  carries a generation expression, and let the lookup query not be rejected. Then
  \<^verbatim>\<open>AlterColumn\<close> returns nil and the lookup is all it issued: the catalog and the
  batch are as before and no schema statement was sent, neither for the type nor for the
  nullability nor for the default, whatever the field declares.
\<close>

lemma AlterColumn_skips_generated_column:
  assumes "parse_value v = Inr stmt"
    and "Schema stmt = Some sch"
    and "r \<in> set (columns (db c))"
    and "c_schema r = ''public''"
    and "c_table r = Stmt_Table stmt"
    and "c_name r = (case LookUpField sch field of Some f \<Rightarrow> DBName f | None \<Rightarrow> field)"
    and "c_generation_expression r \<noteq> None"
    and "faults c (length (log c)) = None"
  shows "AlterColumn lib srv v field c = (None, c\<lparr>log := log c @ [Select is_generated_sql]\<rparr>)"
proof -
  let ?name = "case LookUpField sch field of Some f \<Rightarrow> DBName f | None \<Rightarrow> field"
  let ?P = "\<lambda>r. c_schema r = ''public'' \<and> c_table r = Stmt_Table stmt \<and> c_name r = ?name \<and>
                 c_generation_expression r \<noteq> None"
  from assms(3-7) have "r \<in> set (filter ?P (columns (db c)))" by simp
  then have "filter ?P (columns (db c)) \<noteq> []" by (metis empty_iff empty_set)
  then have pos: "0 < count_generated ''public'' (Stmt_Table stmt) ?name (db c)"
    by (simp add: count_generated_def)
  have "isColumnGenerated v field c = (Inr True, c\<lparr>log := log c @ [Select is_generated_sql]\<rparr>)"
    using assms(1,2,8) pos
    by (simp add: isColumnGenerated_def queryRaw_def issue_def Let_def)
  then show ?thesis by (simp add: AlterColumn_def)
qed


lemma AlterColumn_skips_generated_column_of_singers:
  "AlterColumn postgres_lib accepting_service (Model singers_schema) ''FullName''
     (fresh_conn\<lparr>db := singers_database\<rparr>)
   = (None, fresh_conn\<lparr>db := singers_database, log := [Select is_generated_sql]\<rparr>)"
proof -
  let ?stmt = "\<lparr>Stmt_Table = ''singers'', Schema = Some singers_schema, Omits = []\<rparr>"
  let ?r = "(plain_column ''public'' ''singers'' ''full_name'')
             \<lparr>c_generation_expression := Some ''(first_name || last_name)''\<rparr>"
  let ?c = "fresh_conn\<lparr>db := singers_database\<rparr>"
  have 1: "parse_value (Model singers_schema) = Inr ?stmt"
    by (simp add: parse_value_def singers_schema_def)
  have 2: "Schema ?stmt = Some singers_schema" by simp
  have 3: "?r \<in> set (columns (db ?c))"
    by (simp add: singers_database_def empty_database_def)
  have 4: "c_schema ?r = ''public''" by (simp add: plain_column_def)
  have 5: "c_table ?r = Stmt_Table ?stmt" by (simp add: plain_column_def)
  have 6: "c_name ?r = (case LookUpField singers_schema ''FullName'' of
                          Some f \<Rightarrow> DBName f | None \<Rightarrow> ''FullName'')"
    by (simp add: plain_column_def LookUpField_def singers_schema_def id_field_def
        full_name_field_def)
  have 7: "c_generation_expression ?r \<noteq> None" by simp
  have 8: "faults ?c (length (log ?c)) = None" by (simp add: fresh_conn_def)
  from AlterColumn_skips_generated_column[OF 1 2 3 4 5 6 7 8, of postgres_lib accepting_service]
  show ?thesis by (simp add: fresh_conn_def)
qed

text \<open>
  For contrast, the same field on a catalog where \<^verbatim>\<open>full_name\<close> is an ordinary column:
  the type and the default are altered.
\<close>

lemma AlterColumn_alters_plain_column:
  "log (snd (AlterColumn postgres_lib accepting_service (Model singers_schema) ''FullName''
               (fresh_conn\<lparr>db := singers_database_plain\<rparr>)))
   = [Select is_generated_sql, Select columns_sql, Select get_rows_sql,
      Select unique_constraints_sql, Select constraints_sql, Select spanner_type_sql,
      DDL (''ALTER TABLE \"singers\" ALTER COLUMN \"full_name\" TYPE '' @ DataType full_name_field),
      DDL ''ALTER TABLE \"singers\" ALTER COLUMN \"full_name\" DROP DEFAULT'']"
  by code_simp

text \<open>
  C7. \<^verbatim>\<open>AlterColumn\<close> begins with "do not automatically modify generated columns", and
  the claim says the same. The code does modify one in two cases. The lookup asks for
  the schema \<^verbatim>\<open>public\<close> and for \<^verbatim>\<open>stmt.Table\<close>, where \<^verbatim>\<open>ColumnTypes\<close> and the others
  ask \<^verbatim>\<open>CurrentSchema\<close>: the generated column \<^verbatim>\<open>full_name\<close> of \<^verbatim>\<open>music.singers\<close> is not
  found, and its type and its default are altered. And the error of the lookup is
  dropped: when the transport rejects that one query, the generated column of
  \<^verbatim>\<open>singers\<close> in \<^verbatim>\<open>public\<close> is altered as well.
\<close>

theorem AlterColumn_alters_generated_column:
  "c_generation_expression (columns music_singers_database ! 1) = Some ''(first_name || last_name)'' \<and>
   c_schema (columns music_singers_database ! 1) = ''music'' \<and>
   c_name (columns music_singers_database ! 1) = ''full_name'' \<and>
   fst (AlterColumn music_lib accepting_service
       (Model music_singers_schema) ''FullName'' (fresh_conn\<lparr>db := music_singers_database\<rparr>)) = None \<and>
   log (snd (AlterColumn music_lib accepting_service
       (Model music_singers_schema) ''FullName'' (fresh_conn\<lparr>db := music_singers_database\<rparr>)))
     = [Select is_generated_sql, Select columns_sql, Select get_rows_sql,
        Select unique_constraints_sql, Select constraints_sql, Select spanner_type_sql,
        DDL (''ALTER TABLE \"music\".\"singers\" ALTER COLUMN \"full_name\" TYPE '' @ DataType full_name_field),
        DDL ''ALTER TABLE \"music\".\"singers\" ALTER COLUMN \"full_name\" DROP DEFAULT''] \<and>
   c_generation_expression (columns (db first_command_fails) ! 1) = Some ''(first_name || last_name)'' \<and>
   fst (AlterColumn postgres_lib accepting_service (Model singers_schema) ''FullName''
          first_command_fails) = None \<and>
   log (snd (AlterColumn postgres_lib accepting_service (Model singers_schema) ''FullName''
               first_command_fails))
     = [Select is_generated_sql, Select columns_sql, Select get_rows_sql,
        Select unique_constraints_sql, Select constraints_sql, Select spanner_type_sql,
        DDL (''ALTER TABLE \"singers\" ALTER COLUMN \"full_name\" TYPE '' @ DataType full_name_field),
        DDL ''ALTER TABLE \"singers\" ALTER COLUMN \"full_name\" DROP DEFAULT'']"
  by code_simp

section \<open>ColumnTypes reads one table\<close>



text \<open>
  Were the flag of \<^verbatim>\<open>bs\<close> attributed to \<^verbatim>\<open>as\<close>, the step would drop a constraint that
  \<^verbatim>\<open>as\<close> does not have, the failure that the test of the repository describes.
\<close>

lemma leaked_unique_flag_drops_constraint:
  "unique_change postgres_lib \<lparr>Stmt_Table = ''as'', Schema = Some as_schema, Omits = []\<rparr>
     sha256_field
     ((scan_column (plain_column ''public'' ''as'' ''sha256''))\<lparr>UniqueValue := Some True\<rparr>)
   = Some (DropConstraint ''as'' ''uni_as_sha256'')"
  by code_simp

section \<open>Parents are created first and dropped last\<close>



section \<open>A UNIQUE constraint is refused, the same way each time\<close>

text \<open>
  C3. Let the DDL service refuse every request that holds a UNIQUE constraint, and let
  the statements that the migration of the models assembles (the dry run shows them)
  hold one. Then on a transport that rejects nothing, \<^verbatim>\<open>AutoMigrate\<close> with batching
  returns the error of the refusal as it is and leaves the catalog unchanged, so no
  unique index stands in for the constraint; and \<^verbatim>\<open>AutoMigrate\<close> run again from the state
  the first run left returns the same error and leaves the same catalog.
\<close>

theorem AutoMigrate_rejects_unique_constraint:
  assumes "quiet c"
    and "fst (fst (AutoMigrateDryRun (rejecting_unique is_unique_constraint srv) False base c)) = stmts"
    and "list_ex is_unique_constraint stmts"
    and "AutoMigrate (rejecting_unique is_unique_constraint srv) False base c = (err1, c1)"
    and "AutoMigrate (rejecting_unique is_unique_constraint srv) False base c1 = (err2, c2)"
  shows "err1 = Some unique_constraint_not_supported \<and> err2 = Some unique_constraint_not_supported \<and>
         db c1 = db c \<and> db c2 = db c"
proof -
  let ?srv = "rejecting_unique is_unique_constraint srv"
  from assms(2) have d: "fst (fst (autoMigrate ?srv True False base c)) = stmts"
    by (simp add: AutoMigrateDryRun_def)
  from autoMigrate_rejected[OF assms(1) d assms(3) refl] assms(4)
  have e1: "err1 = Some unique_constraint_not_supported" and s1: "sim c c1"
    by (auto simp: AutoMigrate_def split: prod.splits)
  obtain res1 where m1: "autoMigrate ?srv False False base c = (res1, c1)"
    using assms(4) by (auto simp: AutoMigrate_def split: prod.splits)
  obtain res2 where m2: "autoMigrate ?srv False False base c1 = (res2, c2)"
    using assms(5) by (auto simp: AutoMigrate_def split: prod.splits)
  from sim_autoMigrate[OF s1 m1 m2] have "res1 = res2" and s2: "sim c1 c2" by simp_all
  with m1 m2 assms(4,5) have "err2 = err1" by (auto simp: AutoMigrate_def split: prod.splits)
  with e1 s1 s2 show ?thesis by (auto simp: sim_def observable_def)
qed

theorem AutoMigrate_rejects_unique_constraint_witness:
  "fst (AutoMigrate (rejecting_unique unique_clause accepting_service) False create_as_unique fresh_conn)
     = Some unique_constraint_not_supported \<and>
   fst (AutoMigrate (rejecting_unique unique_clause accepting_service) False create_as_unique
         (snd (AutoMigrate (rejecting_unique unique_clause accepting_service) False create_as_unique fresh_conn)))
     = Some unique_constraint_not_supported \<and>
   db (snd (AutoMigrate (rejecting_unique unique_clause accepting_service) False create_as_unique
         (snd (AutoMigrate (rejecting_unique unique_clause accepting_service) False create_as_unique fresh_conn))))
     = empty_database"
proof -
  let ?srv = "rejecting_unique unique_clause accepting_service"
  let ?r1 = "AutoMigrate ?srv False create_as_unique fresh_conn"
  let ?r2 = "AutoMigrate ?srv False create_as_unique (snd ?r1)"
  have q: "quiet fresh_conn" by (simp add: quiet_def fresh_conn_def)
  have v: "fst (fst (AutoMigrateDryRun ?srv False create_as_unique fresh_conn))
             = [set_default_sequence_kind_sql,
                ''CREATE TABLE \"as\" (\"id\" bigint,\"sha256\" text,PRIMARY KEY (\"id\"),CONSTRAINT \"uni_as_sha256\" UNIQUE (\"sha256\"))'']"
    by (simp add: AutoMigrateDryRun_def autoMigrate_def autoMigrate_body_def queryRaw_def
        StartBatchDDL_def ExecDDL_def AbortBatch_def issue_def fresh_conn_def create_as_unique_def
        count_default_sequence_kind_def empty_database_def GetBatchedStatements_def)
  have u: "list_ex unique_clause [set_default_sequence_kind_sql,
                ''CREATE TABLE \"as\" (\"id\" bigint,\"sha256\" text,PRIMARY KEY (\"id\"),CONSTRAINT \"uni_as_sha256\" UNIQUE (\"sha256\"))'']"
    by code_simp
  have e1: "?r1 = (fst ?r1, snd ?r1)" by simp
  have e2: "?r2 = (fst ?r2, snd ?r2)" by simp
  have d: "db fresh_conn = empty_database" by (simp add: fresh_conn_def)
  from AutoMigrate_rejects_unique_constraint[OF q v u e1 e2] d show ?thesis by simp
qed

end
